theory Spec2Isabelle
  imports Complex_Main "HOL-Library.Multiset"
begin

section \<open>Values handed over by \<^verbatim>\<open>JSON.parse\<close>\<close>

text \<open>
  The model output is parsed with \<^verbatim>\<open>JSON.parse\<close> and then used without any
  type check, so the embedding works on untyped JSON values. Numbers are restricted to
  integers (the data model declares \<^verbatim>\<open>confidence\<close> an integer); a string is a list
  of \<open>char\<close>, one for each code unit, which restricts the texts to code units below
  256; the entries of an object have distinct keys, in the order of their creation.
  \<^verbatim>\<open>undefined\<close> is not a JSON value: the result of a property read is a
  \<open>json option\<close>, with \<open>None\<close> for \<^verbatim>\<open>undefined\<close>.
\<close>

datatype json =
    JNull
  | JBool bool
  | JNum int
  | JStr string
  | JArr "json list"
  | JObj "(string \<times> json) list"

datatype error =
    ConfigError              \<comment> \<open>\<^verbatim>\<open>new Error('OPENAI_API_KEY ...')\<close>, line 21\<close>
  | NetworkError             \<comment> \<open>\<^verbatim>\<open>fetch\<close> rejected\<close>
  | UpstreamError json       \<comment> \<open>\<^verbatim>\<open>new Error(`OpenAI API...: ${message}`)\<close>, line 40\<close>
  | SyntaxError              \<comment> \<open>a body or a text that is not JSON\<close>
  | TypeError                \<comment> \<open>property read on \<^verbatim>\<open>null\<close>/\<^verbatim>\<open>undefined\<close>, call of a non-function\<close>
  | DeepAnalysisFailed       \<comment> \<open>the fixed-message \<^verbatim>\<open>Error\<close> of line 137\<close>
  | InsightGenerationFailed  \<comment> \<open>the fixed-message \<^verbatim>\<open>Error\<close> of line 282\<close>

text \<open>
  What the functions write to the console. \<^verbatim>\<open>console.warn\<close> and \<^verbatim>\<open>console.error\<close>
  are recorded; the \<^verbatim>\<open>console.log\<close> progress lines (263, 266) are not.
\<close>

datatype log_entry =
    WarnSummaryFields nat    \<comment> \<open>line 130, with the 1-based position\<close>
  | WarnNoInsights           \<comment> \<open>line 261\<close>
  | WarnInsightKeywords nat  \<comment> \<open>line 272, with the 1-based position\<close>
  | ErrorRawResponse json    \<comment> \<open>lines 136 and 281: the label and the raw response\<close>

text \<open>JavaScript truthiness, for \<^verbatim>\<open>!x\<close> and \<^verbatim>\<open>x || y\<close>.\<close>

fun truthy :: "json \<Rightarrow> bool" where
  "truthy JNull = False"
| "truthy (JBool b) = b"
| "truthy (JNum n) = (n \<noteq> 0)"
| "truthy (JStr s) = (s \<noteq> [])"
| "truthy (JArr xs) = True"
| "truthy (JObj kvs) = True"

fun truthy_opt :: "json option \<Rightarrow> bool" where
  "truthy_opt None = False"
| "truthy_opt (Some v) = truthy v"

text \<open>\<^verbatim>\<open>v || d\<close> for a default \<open>d\<close> that is a JSON value.\<close>

fun or_else :: "json option \<Rightarrow> json \<Rightarrow> json" where
  "or_else None d = d"
| "or_else (Some v) d = (if truthy v then v else d)"

text \<open>
  Reading a property \<open>k\<close> that no prototype provides (every key the program reads by
  name is of that kind): an object answers from its own properties, every other non-null
  value answers \<^verbatim>\<open>undefined\<close>, and \<^verbatim>\<open>null\<close> throws.
\<close>

fun own_prop :: "json \<Rightarrow> string \<Rightarrow> json option" where
  "own_prop (JObj kvs) k = map_of kvs k"
| "own_prop v k = None"

definition member :: "json \<Rightarrow> string \<Rightarrow> error + json option" where
  "member v k = (if v = JNull then Inl TypeError else Inr (own_prop v k))"

text \<open>\<^verbatim>\<open>v?.k\<close>: \<^verbatim>\<open>undefined\<close> when \<open>v\<close> is \<^verbatim>\<open>undefined\<close> or \<^verbatim>\<open>null\<close>.\<close>

fun opt_member :: "json option \<Rightarrow> string \<Rightarrow> json option" where
  "opt_member None k = None"
| "opt_member (Some v) k = own_prop v k"

text \<open>\<^verbatim>\<open>v.length\<close>.\<close>

fun js_length :: "json \<Rightarrow> json option" where
  "js_length (JArr xs) = Some (JNum (int (length xs)))"
| "js_length (JStr s) = Some (JNum (int (length s)))"
| "js_length (JObj kvs) = map_of kvs ''length''"
| "js_length v = None"

text \<open>
  \<^verbatim>\<open>ToPrimitive\<close> on an object or an array. On an object it tries the methods
  \<^verbatim>\<open>valueOf\<close> and \<^verbatim>\<open>toString\<close>; a parsed object inherits both, the inherited
  \<^verbatim>\<open>valueOf\<close> returns the object itself, and an own \<^verbatim>\<open>toString\<close>, which is no
  function, leaves no method that returns a primitive: the conversion throws. An array is
  joined, which converts each element other than \<^verbatim>\<open>null\<close> to a string.
\<close>

fun converts :: "json \<Rightarrow> bool" where
  "converts (JObj kvs) = (map_of kvs ''toString'' = None)"
| "converts (JArr xs) = list_all converts xs"
| "converts v = True"

text \<open>
  \<^verbatim>\<open>ToNumber\<close>, with \<open>None\<close> for \<^verbatim>\<open>NaN\<close>. An object that converts becomes the text
  \<^verbatim>\<open>[object Object]\<close>, which is no number. The number that a string denotes, or the
  text an array is joined to, is the language's \<^verbatim>\<open>StringToNumber\<close> and is taken as
  the parameter \<open>conv\<close>.
\<close>

fun ToNumber :: "(json \<Rightarrow> int option) \<Rightarrow> json option \<Rightarrow> error + int option" where
  "ToNumber conv None = Inr None"
| "ToNumber conv (Some JNull) = Inr (Some 0)"
| "ToNumber conv (Some (JBool b)) = Inr (Some (if b then 1 else 0))"
| "ToNumber conv (Some (JNum n)) = Inr (Some n)"
| "ToNumber conv (Some (JStr s)) = Inr (conv (JStr s))"
| "ToNumber conv (Some (JArr xs)) =
     (if converts (JArr xs) then Inr (conv (JArr xs)) else Inl TypeError)"
| "ToNumber conv (Some (JObj kvs)) =
     (if converts (JObj kvs) then Inr None else Inl TypeError)"

section \<open>\<^verbatim>\<open>Array.prototype.sort\<close> by a descending key\<close>

text \<open>
  \<^verbatim>\<open>xs.sort((a, b) => key(b) - key(a))\<close> for a \<open>key\<close> that is a number on every
  element. The comparator is then a consistent ordering and the sort, which is stable, has
  one result: \<open>b\<close> is moved in front of an earlier \<open>a\<close> only when
  \<open>key b - key a\<close> is positive.
\<close>

fun insert_sorted :: "('a \<Rightarrow> int) \<Rightarrow> 'a \<Rightarrow> 'a list \<Rightarrow> 'a list" where
  "insert_sorted key a [] = [a]"
| "insert_sorted key a (b # bs) =
     (if 0 < key b - key a then b # insert_sorted key a bs else a # b # bs)"

fun Array_sort :: "('a \<Rightarrow> int) \<Rightarrow> 'a list \<Rightarrow> 'a list" where
  "Array_sort key [] = []"
| "Array_sort key (a # as) = insert_sorted key a (Array_sort key as)"

section \<open>\<^verbatim>\<open>forEach\<close> with a warning\<close>

text \<open>
  \<^verbatim>\<open>xs.forEach((x, index) => { if (check(x)) console.warn(... index + 1 ...) })\<close>: the
  warnings written so far stay written when an element makes the check throw.
\<close>

fun forEach_warn ::
  "(json \<Rightarrow> error + bool) \<Rightarrow> (nat \<Rightarrow> log_entry) \<Rightarrow> nat \<Rightarrow> json list
     \<Rightarrow> log_entry list \<times> error option" where
  "forEach_warn check warn index [] = ([], None)"
| "forEach_warn check warn index (x # xs) =
     (case check x of
        Inl e \<Rightarrow> ([], Some e)
      | Inr w \<Rightarrow>
          (case forEach_warn check warn (index + 1) xs of
             (written, r) \<Rightarrow> ((if w then [warn (index + 1)] else []) @ written, r)))"

section \<open>Strings\<close>

text \<open>
  \<^verbatim>\<open>String.prototype.trim\<close> removes white space and line terminators at both ends;
  these are the ones among the code units a \<open>char\<close> can hold.
\<close>

definition is_white_space :: "char \<Rightarrow> bool" where
  "is_white_space c =
     (c \<in> set [CHR 0x09, CHR 0x0A, CHR 0x0B, CHR 0x0C, CHR 0x0D, CHR 0x20, CHR 0xA0])"

definition trim :: "string \<Rightarrow> string" where
  "trim s = rev (dropWhile is_white_space (rev (dropWhile is_white_space s)))"

definition startsWith :: "string \<Rightarrow> string \<Rightarrow> bool" where
  "startsWith s p = (take (length p) s = p)"

text \<open>
  \<^verbatim>\<open>s.replace(pat, rep)\<close> with a string pattern: only the first occurrence is
  replaced (\<open>rep\<close> holds no \<^verbatim>\<open>$\<close> here).
\<close>

fun replace :: "string \<Rightarrow> string \<Rightarrow> string \<Rightarrow> string" where
  "replace [] pat rep = (if pat = [] then rep else [])"
| "replace (c # cs) pat rep =
     (if take (length pat) (c # cs) = pat then rep @ drop (length pat) (c # cs)
      else c # replace cs pat rep)"

definition fence :: string where
  "fence = [CHR 0x60, CHR 0x60, CHR 0x60]"

text \<open>Lines 119-122 and 251-254.\<close>

definition clean_response :: "string \<Rightarrow> string" where
  "clean_response response =
     (let cleanResponse = trim response in
      if startsWith cleanResponse (fence @ ''json'')
      then trim (replace (replace cleanResponse (fence @ ''json'') []) fence [])
      else cleanResponse)"

text \<open>Decimal digits and the number a decimal numeral denotes.\<close>

definition is_digit :: "char \<Rightarrow> bool" where
  "is_digit c = (48 \<le> (of_char c :: int) \<and> (of_char c :: int) \<le> 57)"

definition decimal :: "string \<Rightarrow> int" where
  "decimal s = foldl (\<lambda>n c. 10 * n + ((of_char c :: int) - 48)) 0 s"

definition digit_char :: "int \<Rightarrow> char" where
  "digit_char d = char_of (48 + d)"

function show_int :: "int \<Rightarrow> string" where
  "show_int n = (if n < 10 then [digit_char n] else show_int (n div 10) @ [digit_char (n mod 10)])"
  by pat_completeness auto
termination
  by (relation "measure nat") auto

declare show_int.simps [simp del]

section \<open>Numbers: \<^verbatim>\<open>((likes / reads) * 100).toFixed(1)\<close>\<close>

text \<open>
  The quotient and the product of line 72 are computed in double precision. A number is
  the rational value of a double, or one of the two infinities (no operation of line 72
  yields \<^verbatim>\<open>NaN\<close> or the negative zero on integers with a positive divisor). The
  counts \<open>likes\<close> and \<open>reads\<close> are integers that are doubles.
\<close>

datatype number = Num rat | PosInf | NegInf

function bit_length :: "int \<Rightarrow> int" where
  "bit_length n = (if n \<le> 0 then 0 else 1 + bit_length (n div 2))"
  by pat_completeness auto
termination
  by (relation "measure nat") auto

declare bit_length.simps [simp del]

function power_of :: "int \<Rightarrow> int \<Rightarrow> int" where
  "power_of b e =
     (if e \<le> 0 then 1
      else if even e then power_of b (e div 2) * power_of b (e div 2)
      else b * power_of b (e - 1))"
  by pat_completeness auto
termination
  by (relation "measure (\<lambda>(b, e). nat e)") auto

declare power_of.simps [simp del]

definition pow2 :: "int \<Rightarrow> rat" where
  "pow2 e = (if 0 \<le> e then of_int (power_of 2 e) else 1 / of_int (power_of 2 (- e)))"

text \<open>
  The integer nearest to \<open>n / d\<close>, the even one of two: \<open>q\<close> is the quotient and
  \<open>r2\<close> twice the remainder.
\<close>

definition round_tie :: "int \<Rightarrow> int \<Rightarrow> int \<Rightarrow> int" where
  "round_tie q r2 d =
     (if r2 < d then q else if d < r2 then q + 1 else if even q then q else q + 1)"

definition round_div :: "int \<Rightarrow> int \<Rightarrow> int" where
  "round_div n d = round_tie (n div d) (2 * (n mod d)) d"

text \<open>
  Rounding the positive rational \<open>p / q\<close> to a double (nearest, ties to even): the
  exponent \<open>e\<close> is the one at which \<open>p / (q * 2\<^sup>e)\<close> has 53 bits, and not below
  \<open>-1074\<close>, the exponent of the subnormal numbers; the significand is that quotient
  rounded; a result of \<open>2\<^sup>1\<^sup>0\<^sup>2\<^sup>4\<close> or more is an infinity.
\<close>

definition scaled :: "int \<Rightarrow> int \<Rightarrow> int \<Rightarrow> int \<times> int" where
  "scaled p q e = (if 0 \<le> e then (p, q * power_of 2 e) else (p * power_of 2 (- e), q))"

definition reaches :: "int \<times> int \<Rightarrow> bool" where
  "reaches nd = (power_of 2 53 * snd nd \<le> fst nd)"

definition adjust :: "int \<Rightarrow> int \<Rightarrow> int \<Rightarrow> int" where
  "adjust p q e0 = (if reaches (scaled p q e0) then e0 + 1 else e0)"

definition exponent_of :: "int \<Rightarrow> int \<Rightarrow> int" where
  "exponent_of p q = max (adjust p q (bit_length p - bit_length q - 53)) (- 1074)"

definition rounded :: "int \<times> int \<Rightarrow> int" where
  "rounded nd = round_div (fst nd) (snd nd)"

definition pack :: "bool \<Rightarrow> int \<Rightarrow> int \<Rightarrow> number" where
  "pack negative m e =
     (if 1024 < bit_length m + e then (if negative then NegInf else PosInf)
      else Num ((if negative then - 1 else 1) * of_int m * pow2 e))"

definition double_at :: "bool \<Rightarrow> int \<Rightarrow> int \<Rightarrow> int \<Rightarrow> number" where
  "double_at negative p q e = pack negative (rounded (scaled p q e)) e"

definition double_of :: "bool \<Rightarrow> int \<times> int \<Rightarrow> number" where
  "double_of negative pq =
     double_at negative (fst pq) (snd pq) (exponent_of (fst pq) (snd pq))"

definition nearest_double :: "rat \<Rightarrow> number" where
  "nearest_double x = (if x = 0 then Num 0 else double_of (x < 0) (quotient_of \<bar>x\<bar>))"

text \<open>\<^verbatim>\<open>(likes / reads) * 100\<close>, for \<open>reads\<close> other than \<open>0\<close>.\<close>

fun times_100 :: "number \<Rightarrow> number" where
  "times_100 (Num v) = nearest_double (v * 100)"
| "times_100 x = x"

definition engagement_number :: "int \<Rightarrow> int \<Rightarrow> number" where
  "engagement_number l r = times_100 (nearest_double (of_int l / of_int r))"

text \<open>
  \<^verbatim>\<open>toFixed(1)\<close> on a number below \<open>10\<^sup>2\<^sup>1\<close>: the integer \<open>n\<close> for which
  \<open>n / 10\<close> is nearest to the number (the larger of two), its digits, padded to two, and
  a point before the last digit.
\<close>

definition pad :: "string \<Rightarrow> string" where
  "pad m = (if length m \<le> 1 then replicate (2 - length m) (CHR ''0'') @ m else m)"

definition point :: "string \<Rightarrow> string" where
  "point m = take (length m - 1) m @ ''.'' @ drop (length m - 1) m"

definition fixed_text :: "rat \<Rightarrow> string" where
  "fixed_text a = point (pad (show_int \<lfloor>a * 10 + 1 / 2\<rfloor>))"

text \<open>
  From \<open>10\<^sup>2\<^sup>1\<close> on \<^verbatim>\<open>toFixed\<close> returns the text of \<^verbatim>\<open>Number::toString\<close>, which
  is in exponent notation there: the digits \<open>s\<close> are the fewest, \<open>k\<close> of them, for
  which \<open>s * 10\<^bsup>n - k\<^esup>\<close> is read back as the same double, and the exponent
  written is \<open>n - 1\<close>. With \<open>n0\<close> the number of digits of the integer, \<open>n\<close> is
  \<open>n0\<close>, or \<open>n0 + 1\<close> when the digits round up to a power of ten.
\<close>

definition carried :: "int \<Rightarrow> int \<Rightarrow> int \<Rightarrow> int \<times> int" where
  "carried n0 k s = (if s = power_of 10 k then (power_of 10 (k - 1), n0 + 1) else (s, n0))"

definition digits_of :: "int \<Rightarrow> rat \<Rightarrow> int \<Rightarrow> int \<times> int" where
  "digits_of n0 a k =
     carried n0 k
       (round_div (fst (quotient_of a)) (snd (quotient_of a) * power_of 10 (n0 - k)))"

definition denoted :: "int \<Rightarrow> int \<times> int \<Rightarrow> number" where
  "denoted k sn = nearest_double (of_int (fst sn * power_of 10 (snd sn - k)))"

definition round_trips :: "int \<Rightarrow> rat \<Rightarrow> int \<Rightarrow> bool" where
  "round_trips n0 a k = (denoted k (digits_of n0 a k) = Num a)"

definition shortest :: "int \<Rightarrow> rat \<Rightarrow> int" where
  "shortest n0 a = (case find (round_trips n0 a) [1..17] of Some k \<Rightarrow> k | None \<Rightarrow> 17)"

definition mantissa_text :: "string \<Rightarrow> string" where
  "mantissa_text ds = (if length ds = 1 then ds else take 1 ds @ ''.'' @ drop 1 ds)"

definition exponent_form :: "int \<times> int \<Rightarrow> string" where
  "exponent_form sn = mantissa_text (show_int (fst sn)) @ ''e+'' @ show_int (snd sn - 1)"

definition exponent_text_at :: "int \<Rightarrow> rat \<Rightarrow> string" where
  "exponent_text_at n0 a = exponent_form (digits_of n0 a (shortest n0 a))"

definition exponent_text :: "rat \<Rightarrow> string" where
  "exponent_text a = exponent_text_at (int (length (show_int \<lfloor>a\<rfloor>))) a"

definition unsigned_text :: "rat \<Rightarrow> string" where
  "unsigned_text a = (if 10 ^ 21 \<le> a then exponent_text a else fixed_text a)"

fun toFixed1 :: "number \<Rightarrow> string" where
  "toFixed1 PosInf = ''Infinity''"
| "toFixed1 NegInf = ''-Infinity''"
| "toFixed1 (Num v) = (if v < 0 then ''-'' else []) @ unsigned_text \<bar>v\<bar>"

section \<open>The Completion Client (lines 16-45)\<close>

datatype role = System | User

record article =
  title :: string
  content :: "string option"
  likes :: int
  reads :: int
  url :: string

text \<open>The object built for each article at lines 66-73.\<close>

record article_entry =
  entry_index :: nat
  entry_title :: string
  entry_content :: string
  entry_likes :: int
  entry_reads :: int
  entry_engagement :: string

text \<open>
  Modelled from the spec: the type \<^verbatim>\<open>ArticleSummary\<close>, declared in
  \<^verbatim>\<open>@/types/ai-analysis\<close>, which is not among the sources. The fields are those of
  the spec's data model; \<^verbatim>\<open>keywords\<close> and the three targeting fields may be absent.
\<close>

record ArticleSummary =
  index :: int
  keyPoints :: "string list"
  "keywords" :: "string list option"
  highlights :: "string list"
  engagementAnalysis :: string
  targetAudience :: "string option"
  scenario :: "string option"
  painPoint :: "string option"
  contentAngle :: string
  emotionType :: string
  writingStyle :: string

record stats =
  totalArticles :: int
  avgReads :: int
  avgLikes :: int
  avgEngagement :: string

text \<open>
  The message texts are fixed templates in Chinese; a message is represented by its
  template and the values interpolated into it.
\<close>

datatype message_content =
    DeepAnalysisSystem
  | DeepAnalysisPrompt nat "article_entry list"
  | InsightSystem
  | InsightPrompt nat "ArticleSummary list" stats

record request =
  req_url :: string
  req_authorization :: string
  req_model :: string
  req_messages :: "(role \<times> message_content) list"
  req_temperature :: rat

text \<open>
  The response of \<^verbatim>\<open>fetch\<close>: \<open>body\<close> is what \<^verbatim>\<open>response.json()\<close> resolves to,
  \<open>None\<close> when it rejects.
\<close>

record http_response =
  ok :: bool
  statusText :: string
  body :: "json option"

text \<open>
  What the functions take from their environment: the three configuration constants of
  lines 9-11, the network, and three operations of the language: \<^verbatim>\<open>JSON.parse\<close>,
  with \<open>None\<close> for a text it rejects; \<open>number_of\<close>, the number that a string or a
  joined array denotes; and \<open>sort_order\<close>, the order the engine gives to an array whose
  comparator is not a consistent ordering, which the language leaves to the engine.
\<close>

record env =
  OPENAI_API_KEY :: string
  OPENAI_API_BASE :: string
  OPENAI_MODEL :: string
  fetch :: "request \<Rightarrow> error + http_response"
  JSON_parse :: "string \<Rightarrow> json option"
  number_of :: "json \<Rightarrow> int option"
  sort_order :: "json list \<Rightarrow> json list"

text \<open>\<^verbatim>\<open>v[0]\<close>.\<close>

fun first_element :: "json option \<Rightarrow> error + json option" where
  "first_element None = Inl TypeError"
| "first_element (Some JNull) = Inl TypeError"
| "first_element (Some (JArr xs)) = Inr (case xs of [] \<Rightarrow> None | x # _ \<Rightarrow> Some x)"
| "first_element (Some (JStr s)) = Inr (case s of [] \<Rightarrow> None | c # _ \<Rightarrow> Some (JStr [c]))"
| "first_element (Some (JObj kvs)) = Inr (map_of kvs ''0'')"
| "first_element (Some v) = Inr None"

text \<open>Lines 43-44: \<^verbatim>\<open>data.choices[0]?.message?.content || ''\<close>.\<close>

definition message_text :: "json \<Rightarrow> error + json" where
  "message_text data =
     (case member data ''choices'' of
        Inl e \<Rightarrow> Inl e
      | Inr choices \<Rightarrow>
          (case first_element choices of
             Inl e \<Rightarrow> Inl e
           | Inr choice \<Rightarrow>
               Inr (or_else (opt_member (opt_member choice ''message'') ''content'')
                      (JStr []))))"

text \<open>
  Lines 39-40, on the body of a response that is not \<^verbatim>\<open>ok\<close>. The message is
  interpolated into the text of the error, which converts it to a string.
\<close>

definition upstream_message :: "json \<Rightarrow> error" where
  "upstream_message message = (if converts message then UpstreamError message else TypeError)"

definition upstream_error :: "http_response \<Rightarrow> error" where
  "upstream_error response =
     (let error = (case body response of
                     None \<Rightarrow> JObj [(''error'', JObj [(''message'', JStr ''Unknown error'')])]
                   | Some b \<Rightarrow> b)
      in case member error ''error'' of
           Inl e \<Rightarrow> e
         | Inr detail \<Rightarrow>
             upstream_message (or_else (opt_member detail ''message'')
                                 (JStr (statusText response))))"

text \<open>The result comes with the requests that were sent.\<close>

definition request_of :: "env \<Rightarrow> (role \<times> message_content) list \<Rightarrow> rat \<Rightarrow> request" where
  "request_of env messages temperature =
     \<lparr>req_url = OPENAI_API_BASE env @ ''/chat/completions'',
      req_authorization = ''Bearer '' @ OPENAI_API_KEY env,
      req_model = OPENAI_MODEL env,
      req_messages = messages,
      req_temperature = temperature\<rparr>"

definition callOpenAI ::
  "env \<Rightarrow> (role \<times> message_content) list \<Rightarrow> rat \<Rightarrow> request list \<times> (error + json)" where
  "callOpenAI env messages temperature =
     (if OPENAI_API_KEY env = [] then ([], Inl ConfigError)
      else
        let req = request_of env messages temperature
        in case fetch env req of
             Inl e \<Rightarrow> ([req], Inl e)
           | Inr response \<Rightarrow>
               if \<not> ok response then ([req], Inl (upstream_error response))
               else (case body response of
                       None \<Rightarrow> ([req], Inl SyntaxError)
                     | Some data \<Rightarrow> ([req], message_text data)))"

text \<open>What a call of one of the two phases leaves behind.\<close>

record outcome =
  calls :: "request list"
  console :: "log_entry list"
  result :: "error + json list"

section \<open>Phase 1: deep analysis (lines 51-139)\<close>

text \<open>Lines 66-73.\<close>

definition article_entry_of :: "nat \<Rightarrow> article \<Rightarrow> article_entry" where
  "article_entry_of i a =
     \<lparr>entry_index = i + 1,
      entry_title = title a,
      entry_content = take 3000 (case content a of None \<Rightarrow> [] | Some c \<Rightarrow> c),
      entry_likes = likes a,
      entry_reads = reads a,
      entry_engagement =
        (if reads a > 0 then toFixed1 (engagement_number (likes a) (reads a))
         else ''0'')\<rparr>"

definition articlesJson :: "article list \<Rightarrow> article_entry list" where
  "articlesJson articles = map (\<lambda>(i, a). article_entry_of i a) (enumerate 0 articles)"

text \<open>
  Line 129:
  \<^verbatim>\<open>!summary.targetAudience || !summary.scenario || !summary.painPoint\<close>.
\<close>

definition summary_incomplete :: "json \<Rightarrow> error + bool" where
  "summary_incomplete summary =
     (case member summary ''targetAudience'' of
        Inl e \<Rightarrow> Inl e
      | Inr a \<Rightarrow>
          if \<not> truthy_opt a then Inr True
          else (case member summary ''scenario'' of
                  Inl e \<Rightarrow> Inl e
                | Inr s \<Rightarrow>
                    if \<not> truthy_opt s then Inr True
                    else (case member summary ''painPoint'' of
                            Inl e \<Rightarrow> Inl e
                          | Inr p \<Rightarrow> Inr (\<not> truthy_opt p))))"

text \<open>Lines 128-134 when \<^verbatim>\<open>summaries\<close> is an array.\<close>

definition validate_summaries :: "json list \<Rightarrow> log_entry list \<times> (error + json list)" where
  "validate_summaries summaries =
     (case forEach_warn summary_incomplete WarnSummaryFields 0 summaries of
        (written, Some e) \<Rightarrow> (written, Inl e)
      | (written, None) \<Rightarrow> (written, Inr summaries))"

text \<open>
  The body of the \<^verbatim>\<open>try\<close>, lines 119-134. The response is whatever the completion
  client returned; \<^verbatim>\<open>trim\<close> exists on strings only, and \<^verbatim>\<open>forEach\<close> on arrays
  only.
\<close>

definition deepAnalyze_try :: "env \<Rightarrow> json \<Rightarrow> log_entry list \<times> (error + json list)" where
  "deepAnalyze_try env response =
     (case response of
        JStr text \<Rightarrow>
          (case JSON_parse env (clean_response text) of
             None \<Rightarrow> ([], Inl SyntaxError)
           | Some parsed \<Rightarrow>
               (case member parsed ''summaries'' of
                  Inl e \<Rightarrow> ([], Inl e)
                | Inr v \<Rightarrow>
                    (case or_else v (JArr []) of
                       JArr summaries \<Rightarrow> validate_summaries summaries
                     | _ \<Rightarrow> ([], Inl TypeError))))
      | _ \<Rightarrow> ([], Inl TypeError))"

text \<open>
  The whole of lines 117-138: whatever is thrown inside the \<^verbatim>\<open>try\<close>, the
  \<^verbatim>\<open>catch\<close> writes the raw response to \<^verbatim>\<open>console.error\<close> and throws the fixed
  error.
\<close>

definition deepAnalyze_response :: "env \<Rightarrow> json \<Rightarrow> log_entry list \<times> (error + json list)" where
  "deepAnalyze_response env response =
     (case deepAnalyze_try env response of
        (written, Inl e) \<Rightarrow> (written @ [ErrorRawResponse response], Inl DeepAnalysisFailed)
      | (written, Inr summaries) \<Rightarrow> (written, Inr summaries))"

text \<open>Lines 76-114: the two messages of the request.\<close>

definition deepAnalyze_messages :: "article list \<Rightarrow> (role \<times> message_content) list" where
  "deepAnalyze_messages articles =
     [(System, DeepAnalysisSystem),
      (User, DeepAnalysisPrompt (length articles) (articlesJson articles))]"

definition deepAnalyzeArticles :: "env \<Rightarrow> article list \<Rightarrow> outcome" where
  "deepAnalyzeArticles env articles =
     (if length articles = 0 then \<lparr>calls = [], console = [], result = Inr []\<rparr>
      else
        (case callOpenAI env (deepAnalyze_messages articles) (3 / 10) of
           (sent, Inl e) \<Rightarrow> \<lparr>calls = sent, console = [], result = Inl e\<rparr>
         | (sent, Inr response) \<Rightarrow>
             (case deepAnalyze_response env response of
                (written, r) \<Rightarrow> \<lparr>calls = sent, console = written, result = r\<rparr>)))"

section \<open>Phase 2: capping, validation and ranking (lines 259-279)\<close>

text \<open>Lines 260-267 on an array: the cap keeps the first ten elements as emitted.\<close>

definition cap_insights :: "json list \<Rightarrow> log_entry list \<times> json list" where
  "cap_insights insights =
     (if length insights = 0 then ([WarnNoInsights], insights)
      else if length insights > 10 then ([], take 10 insights)
      else ([], insights))"

text \<open>
  Line 271:
  \<^verbatim>\<open>!insight.keywords?.scene || !insight.keywords?.audience || !insight.keywords?.need\<close>.
\<close>

definition keywords_missing :: "json \<Rightarrow> error + bool" where
  "keywords_missing insight =
     (case member insight ''keywords'' of
        Inl e \<Rightarrow> Inl e
      | Inr kw \<Rightarrow>
          Inr (\<not> truthy_opt (opt_member kw ''scene'')
             \<or> \<not> truthy_opt (opt_member kw ''audience'')
             \<or> \<not> truthy_opt (opt_member kw ''need'')))"

text \<open>
  Lines 277-279. The comparator is \<^verbatim>\<open>b.confidence - a.confidence\<close>, on elements
  that are not \<^verbatim>\<open>null\<close>; the subtraction converts both values to numbers. An array
  of fewer than two elements is returned without a comparison. Otherwise every element
  takes part in a comparison: the sort throws when the confidence of an element does not
  convert; when one is \<^verbatim>\<open>NaN\<close> the comparator is no consistent ordering and the
  result is the permutation the engine chooses; when all are numbers the result is the
  stable sort by descending confidence.
\<close>

definition confidence_number :: "env \<Rightarrow> json \<Rightarrow> error + int option" where
  "confidence_number env x = ToNumber (number_of env) (own_prop x ''confidence'')"

definition confidence_key :: "env \<Rightarrow> json \<Rightarrow> int" where
  "confidence_key env x = (case confidence_number env x of Inr (Some n) \<Rightarrow> n | _ \<Rightarrow> 0)"

definition engine_order :: "env \<Rightarrow> json list \<Rightarrow> json list" where
  "engine_order env xs = (if mset (sort_order env xs) = mset xs then sort_order env xs else xs)"

definition sort_insights :: "env \<Rightarrow> json list \<Rightarrow> error + json list" where
  "sort_insights env insights =
     (if length insights < 2 then Inr insights
      else if list_ex (\<lambda>x. isl (confidence_number env x)) insights then Inl TypeError
      else if list_ex (\<lambda>x. confidence_number env x = Inr None) insights
        then Inr (engine_order env insights)
      else Inr (Array_sort (confidence_key env) insights))"

text \<open>Lines 259-279 when \<^verbatim>\<open>insights\<close> is an array.\<close>

definition rank_insights :: "env \<Rightarrow> json list \<Rightarrow> log_entry list \<times> (error + json list)" where
  "rank_insights env insights =
     (case cap_insights insights of
        (log1, capped) \<Rightarrow>
          (case forEach_warn keywords_missing WarnInsightKeywords 0 capped of
             (log2, Some e) \<Rightarrow> (log1 @ log2, Inl e)
           | (log2, None) \<Rightarrow> (log1 @ log2, sort_insights env capped)))"

text \<open>
  The body of the \<^verbatim>\<open>try\<close>, lines 251-279. When \<^verbatim>\<open>insights\<close> is not an array,
  \<^verbatim>\<open>forEach\<close> is not a function (or, before it, \<^verbatim>\<open>slice\<close> is none, or the
  comparison of the length throws); the warning of line 261 has been written before that
  when \<^verbatim>\<open>insights.length\<close> is \<open>0\<close>.
\<close>

definition generateInsights_try ::
  "env \<Rightarrow> json \<Rightarrow> log_entry list \<times> (error + json list)" where
  "generateInsights_try env response =
     (case response of
        JStr text \<Rightarrow>
          (case JSON_parse env (clean_response text) of
             None \<Rightarrow> ([], Inl SyntaxError)
           | Some parsed \<Rightarrow>
               (case member parsed ''insights'' of
                  Inl e \<Rightarrow> ([], Inl e)
                | Inr v \<Rightarrow>
                    (case or_else v (JArr []) of
                       JArr insights \<Rightarrow> rank_insights env insights
                     | other \<Rightarrow>
                         (if js_length other = Some (JNum 0) then [WarnNoInsights] else [],
                          Inl TypeError))))
      | _ \<Rightarrow> ([], Inl TypeError))"

definition generateInsights_response ::
  "env \<Rightarrow> json \<Rightarrow> log_entry list \<times> (error + json list)" where
  "generateInsights_response env response =
     (case generateInsights_try env response of
        (written, Inl e) \<Rightarrow> (written @ [ErrorRawResponse response], Inl InsightGenerationFailed)
      | (written, Inr insights) \<Rightarrow> (written, Inr insights))"

text \<open>Lines 158-247: the two messages of the request.\<close>

definition insight_messages :: "ArticleSummary list \<Rightarrow> stats \<Rightarrow> (role \<times> message_content) list" where
  "insight_messages summaries st =
     [(System, InsightSystem), (User, InsightPrompt (length summaries) summaries st)]"

definition generateSmartTopicInsights :: "env \<Rightarrow> ArticleSummary list \<Rightarrow> stats \<Rightarrow> outcome" where
  "generateSmartTopicInsights env summaries st =
     (if length summaries = 0 then \<lparr>calls = [], console = [], result = Inr []\<rparr>
      else
        (case callOpenAI env (insight_messages summaries st) (4 / 10) of
           (sent, Inl e) \<Rightarrow> \<lparr>calls = sent, console = [], result = Inl e\<rparr>
         | (sent, Inr response) \<Rightarrow>
             (case generateInsights_response env response of
                (written, r) \<Rightarrow> \<lparr>calls = sent, console = written, result = r\<rparr>)))"

section \<open>The word cloud (lines 289-308)\<close>

record WordCloudEntry =
  word :: string
  count' :: int
  size' :: int

text \<open>Line 290: \<^verbatim>\<open>summaries.flatMap(s => s.keywords || [])\<close>.\<close>

definition allKeywords :: "ArticleSummary list \<Rightarrow> string list" where
  "allKeywords summaries =
     concat (map (\<lambda>s. case keywords s of None \<Rightarrow> [] | Some ks \<Rightarrow> ks) summaries)"

text \<open>
  \<^verbatim>\<open>wordCount\<close> is an ordinary object. Its own properties are kept in the order in
  which they were created. A read of a name that \<^verbatim>\<open>Object.prototype\<close> provides
  answers the inherited value, not \<^verbatim>\<open>undefined\<close>; these are the names.
\<close>

definition Object_prototype_names :: "string list" where
  "Object_prototype_names =
     [''constructor'', ''hasOwnProperty'', ''isPrototypeOf'', ''propertyIsEnumerable'',
      ''toLocaleString'', ''toString'', ''valueOf'', ''__proto__'',
      ''__defineGetter__'', ''__defineSetter__'', ''__lookupGetter__'', ''__lookupSetter__'']"

text \<open>\<^verbatim>\<open>obj[k] = v\<close> on own properties: a new property goes to the end.\<close>

fun set_prop :: "string \<Rightarrow> 'v \<Rightarrow> (string \<times> 'v) list \<Rightarrow> (string \<times> 'v) list" where
  "set_prop k v [] = [(k, v)]"
| "set_prop k v ((k', v') # ps) =
     (if k' = k then (k, v) # ps else (k', v') # set_prop k v ps)"

text \<open>Line 295: \<^verbatim>\<open>wordCount[word] = (wordCount[word] || 0) + 1\<close>.\<close>

definition count_word :: "(string \<times> int) list \<Rightarrow> string \<Rightarrow> (string \<times> int) list" where
  "count_word wordCount w =
     set_prop w ((case map_of wordCount w of
                    None \<Rightarrow> 0
                  | Some n \<Rightarrow> if n \<noteq> 0 then n else 0) + 1) wordCount"

text \<open>
  The order of \<^verbatim>\<open>Object.entries\<close>: first the keys that are array indices (canonical
  decimal numerals below \<open>2\<^sup>3\<^sup>2 - 1\<close>) in ascending numeric order, then the other keys
  in the order of their creation.
\<close>

definition is_array_index :: "string \<Rightarrow> bool" where
  "is_array_index s =
     (s \<noteq> [] \<and> list_all is_digit s \<and> (s = ''0'' \<or> hd s \<noteq> CHR ''0'')
      \<and> decimal s < 2 ^ 32 - 1)"

definition Object_entries :: "(string \<times> 'v) list \<Rightarrow> (string \<times> 'v) list" where
  "Object_entries props =
     sort_key (\<lambda>(k, v). decimal k) (filter (\<lambda>(k, v). is_array_index k) props)
       @ filter (\<lambda>(k, v). \<not> is_array_index k) props"

text \<open>
  Lines 300-305: the comparator \<^verbatim>\<open>([,a], [,b]) => b - a\<close> sorts by the count, the
  second component of an entry, which is a number.
\<close>

definition cloud_entry :: "nat \<times> string \<times> int \<Rightarrow> WordCloudEntry" where
  "cloud_entry e =
     (case e of (i, w, c) \<Rightarrow> \<lparr>word = w, count' = c, size' = max 20 (48 - int i * 2)\<rparr>)"

text \<open>
  The function. The result is \<open>None\<close> where this model does not describe the code: when
  a keyword is one of the names above, \<^verbatim>\<open>wordCount[word] || 0\<close> is the inherited
  function or object, the sum is a string, and the comparator yields \<^verbatim>\<open>NaN\<close>.
\<close>

definition generateWordCloud :: "ArticleSummary list \<Rightarrow> WordCloudEntry list option" where
  "generateWordCloud summaries =
     (let all = allKeywords summaries in
      if list_ex (\<lambda>w. w \<in> set Object_prototype_names) all then None
      else
        let wordCount = foldl count_word [] all;
            sorted = map cloud_entry
                       (enumerate 0 (take 20 (Array_sort snd (Object_entries wordCount))))
        in Some sorted)"

section \<open>Vocabulary of the statements\<close>

text \<open>An insight record: an object whose \<^verbatim>\<open>confidence\<close> is a number.\<close>

fun is_insight :: "json \<Rightarrow> bool" where
  "is_insight (JObj kvs) =
     (case map_of kvs ''confidence'' of Some (JNum n) \<Rightarrow> True | _ \<Rightarrow> False)"
| "is_insight v = False"

fun confidence_of :: "json \<Rightarrow> int" where
  "confidence_of (JObj kvs) =
     (case map_of kvs ''confidence'' of Some (JNum n) \<Rightarrow> n | _ \<Rightarrow> 0)"
| "confidence_of v = 0"

definition sample_insight :: "string \<Rightarrow> int \<Rightarrow> json" where
  "sample_insight t c = JObj [(''title'', JStr t), (''confidence'', JNum c)]"

definition eleven_insights :: "json list" where
  "eleven_insights =
     [sample_insight ''a'' 70, sample_insight ''b'' 71, sample_insight ''c'' 72,
      sample_insight ''d'' 73, sample_insight ''e'' 74, sample_insight ''f'' 75,
      sample_insight ''g'' 76, sample_insight ''h'' 77, sample_insight ''i'' 78,
      sample_insight ''j'' 79, sample_insight ''k'' 95]"

definition no_conversion :: "json \<Rightarrow> int option" where
  "no_conversion v = None"

text \<open>
  A summary record lacks a targeting field when the key is absent; the check of line 129
  also fires when the value is \<^verbatim>\<open>null\<close>, \<^verbatim>\<open>false\<close>, \<open>0\<close> or the empty string.
\<close>

definition falsy :: "json option \<Rightarrow> bool" where
  "falsy v = (v = None \<or> v = Some JNull \<or> v = Some (JBool False) \<or> v = Some (JNum 0)
              \<or> v = Some (JStr []))"

definition targeting_absent :: "json \<Rightarrow> bool" where
  "targeting_absent s =
     (own_prop s ''targetAudience'' = None \<or> own_prop s ''scenario'' = None
      \<or> own_prop s ''painPoint'' = None)"

definition targeting_incomplete :: "json \<Rightarrow> bool" where
  "targeting_incomplete s =
     (falsy (own_prop s ''targetAudience'') \<or> falsy (own_prop s ''scenario'')
      \<or> falsy (own_prop s ''painPoint''))"

text \<open>The value of \<^verbatim>\<open>keywords.f\<close> in an insight record, where there is one.\<close>

definition keyword_field :: "json \<Rightarrow> string \<Rightarrow> json option" where
  "keyword_field insight f =
     (case own_prop insight ''keywords'' of
        None \<Rightarrow> None
      | Some kw \<Rightarrow> own_prop kw f)"

definition keyword_fields_absent :: "json \<Rightarrow> bool" where
  "keyword_fields_absent insight =
     (keyword_field insight ''scene'' = None \<or> keyword_field insight ''audience'' = None
      \<or> keyword_field insight ''need'' = None)"

definition keyword_fields_incomplete :: "json \<Rightarrow> bool" where
  "keyword_fields_incomplete insight =
     (falsy (keyword_field insight ''scene'') \<or> falsy (keyword_field insight ''audience'')
      \<or> falsy (keyword_field insight ''need''))"

text \<open>
  The parsed values on which nothing after \<^verbatim>\<open>JSON.parse\<close> throws: a value other
  than \<^verbatim>\<open>null\<close> whose \<^verbatim>\<open>summaries\<close> (\<^verbatim>\<open>insights\<close>) is falsy, or an array that
  holds no \<^verbatim>\<open>null\<close> (among its first ten elements). The first ten insights must
  also be sortable: fewer than two, or each with a confidence that converts to a number
  or to \<^verbatim>\<open>NaN\<close>.
\<close>

definition usable_summaries :: "json \<Rightarrow> bool" where
  "usable_summaries parsed =
     (parsed \<noteq> JNull \<and>
      (case or_else (own_prop parsed ''summaries'') (JArr []) of
         JArr xs \<Rightarrow> JNull \<notin> set xs
       | _ \<Rightarrow> False))"

definition confidence_converts :: "json \<Rightarrow> bool" where
  "confidence_converts x =
     (case own_prop x ''confidence'' of None \<Rightarrow> True | Some v \<Rightarrow> converts v)"

definition sortable :: "json list \<Rightarrow> bool" where
  "sortable xs = (length xs < 2 \<or> list_all confidence_converts xs)"

definition usable_insights :: "json \<Rightarrow> bool" where
  "usable_insights parsed =
     (parsed \<noteq> JNull \<and>
      (case or_else (own_prop parsed ''insights'') (JArr []) of
         JArr xs \<Rightarrow> JNull \<notin> set (take 10 xs) \<and> sortable (take 10 xs)
       | _ \<Rightarrow> False))"

text \<open>
  For the completion client: the value of \<^verbatim>\<open>choices[0]?.message?.content\<close> when
  \<^verbatim>\<open>choices\<close> is the value \<open>c\<close>, which is not \<^verbatim>\<open>null\<close>.
\<close>

fun first_choice :: "json \<Rightarrow> json option" where
  "first_choice (JArr (x # xs)) = Some x"
| "first_choice (JStr (c # cs)) = Some (JStr [c])"
| "first_choice (JObj kvs) = map_of kvs ''0''"
| "first_choice v = None"

definition first_content :: "json \<Rightarrow> json option" where
  "first_content c =
     (case first_choice c of
        None \<Rightarrow> None
      | Some choice \<Rightarrow>
          (case own_prop choice ''message'' of
             None \<Rightarrow> None
           | Some message \<Rightarrow> own_prop message ''content''))"

text \<open>
  For the word cloud: the distinct keywords in the order of their first occurrence, the
  number of occurrences of a keyword, the order in which an object lists its keys, and
  the ranking: the keys in that order, sorted stably by descending number of occurrences,
  the first twenty of them.
\<close>

definition first_seen :: "string list \<Rightarrow> string list" where
  "first_seen ws = rev (remdups (rev ws))"

definition occurrences :: "string list \<Rightarrow> string \<Rightarrow> int" where
  "occurrences ws w = int (count_list ws w)"

definition key_order :: "string list \<Rightarrow> string list" where
  "key_order ks =
     sort_key decimal (filter is_array_index ks) @ filter (\<lambda>k. \<not> is_array_index k) ks"

definition ranked_words :: "string list \<Rightarrow> string list" where
  "ranked_words ws =
     take 20 (sort_key (\<lambda>w. - occurrences ws w) (key_order (first_seen ws)))"

section \<open>Sample inputs\<close>

text \<open>
  A finite part of \<^verbatim>\<open>JSON.parse\<close>: the texts of the table are parsed as
  \<^verbatim>\<open>JSON.parse\<close> parses them, and \<open>not json\<close>, which it rejects, is the only other
  text it is applied to.
\<close>

definition summaries_text :: string where
  \<open>summaries_text = ''{"summaries":[{"scenario":"s","painPoint":"p"}]}''\<close>

definition summaries_null_text :: string where
  \<open>summaries_null_text = ''{"summaries":[{"scenario":"s","painPoint":"p"},null]}''\<close>

definition unsortable_text :: string where
  \<open>unsortable_text =
     ''{"insights":[{"confidence":{"toString":0}},{"confidence":80}]}''\<close>

definition unsortable_value :: json where
  "unsortable_value =
     JObj [(''insights'',
            JArr [JObj [(''confidence'', JObj [(''toString'', JNum 0)])],
                  JObj [(''confidence'', JNum 80)]])]"

definition sample_parse :: "string \<Rightarrow> json option" where
  "sample_parse =
     map_of
       [(''null'', JNull),
        (''{}'', JObj []),
        (summaries_text,
         JObj [(''summaries'', JArr [JObj [(''scenario'', JStr ''s''),
                                           (''painPoint'', JStr ''p'')]])]),
        (summaries_null_text,
         JObj [(''summaries'', JArr [JObj [(''scenario'', JStr ''s''),
                                           (''painPoint'', JStr ''p'')], JNull])]),
        (unsortable_text, unsortable_value)]"

text \<open>An insight whose three keyword fields are present, the first of them empty.\<close>

definition empty_scene_insight :: json where
  "empty_scene_insight =
     JObj [(''keywords'', JObj [(''scene'', JStr []), (''audience'', JStr ''a''),
                                (''need'', JStr ''n'')])]"

text \<open>An insight of the shape the prompt asks for: no \<^verbatim>\<open>keywords\<close>.\<close>

definition schema_insight :: json where
  "schema_insight =
     JObj [(''title'', JStr ''t''), (''confidence'', JNum 85),
           (''decisionStage'', JObj [(''stage'', JStr ''s''), (''reason'', JStr ''r'')]),
           (''audienceScene'', JObj [(''audience'', JStr ''a''), (''scene'', JStr ''s''),
                                     (''reason'', JStr ''r'')]),
           (''demandPainPoint'', JObj [(''emotionalPain'', JStr ''e''),
                                       (''realisticPain'', JStr ''p''),
                                       (''expectation'', JStr ''x''),
                                       (''reason'', JStr ''r'')])]"

text \<open>A successful response of the endpoint whose first choice carries \<open>text\<close>.\<close>

definition completion :: "string \<Rightarrow> json" where
  "completion text =
     JObj [(''choices'', JArr [JObj [(''message'', JObj [(''content'', JStr text)])]])]"

definition reply_with :: "json \<Rightarrow> request \<Rightarrow> error + http_response" where
  "reply_with data req = Inr \<lparr>ok = True, statusText = ''OK'', body = Some data\<rparr>"

text \<open>
  An environment whose endpoint answers every request with the body \<open>data\<close>; it is
  used on confidences that are numbers only, where neither \<open>number_of\<close> nor
  \<open>sort_order\<close> is consulted.
\<close>

definition kept_order :: "json list \<Rightarrow> json list" where
  "kept_order xs = xs"

definition sample_env :: "json \<Rightarrow> env" where
  "sample_env data =
     \<lparr>OPENAI_API_KEY = ''key'',
      OPENAI_API_BASE = ''https://api.openai.com/v1'',
      OPENAI_MODEL = ''gpt-4o'',
      fetch = reply_with data,
      JSON_parse = sample_parse,
      number_of = no_conversion,
      sort_order = kept_order\<rparr>"

definition sample_article :: article where
  "sample_article = \<lparr>title = ''t'', content = Some ''c'', likes = 1, reads = 2, url = ''u''\<rparr>"



definition sample_summary :: "string list \<Rightarrow> ArticleSummary" where
  "sample_summary ks =
     \<lparr>index = 1, keyPoints = [], keywords = Some ks, highlights = [],
      engagementAnalysis = [], targetAudience = None, scenario = None, painPoint = None,
      contentAngle = [], emotionType = [], writingStyle = []\<rparr>"

definition sample_stats :: stats where
  "sample_stats = \<lparr>totalArticles = 1, avgReads = 2, avgLikes = 1, avgEngagement = ''50.0''\<rparr>"

section \<open>The ranking\<close>

lemma is_insight_not_null: "is_insight x \<Longrightarrow> x \<noteq> JNull"
  by (cases x) auto

lemma is_insight_number:
  "is_insight x \<Longrightarrow> confidence_number env x = Inr (Some (confidence_of x))"
  by (cases x) (auto simp: confidence_number_def split: option.splits json.splits)

lemma is_insight_key: "is_insight x \<Longrightarrow> confidence_key env x = confidence_of x"
  by (simp add: confidence_key_def is_insight_number)

lemma insert_sorted_insort_key:
  "insert_sorted key a bs = insort_key (\<lambda>x. - key x) a bs"
  by (induction bs) auto

lemma Array_sort_sort_key: "Array_sort key xs = sort_key (\<lambda>x. - key x) xs"
  by (induction xs) (auto simp: insert_sorted_insort_key)

lemma insort_key_agree:
  "f a = g a \<Longrightarrow> \<forall>x\<in>set ys. f x = g x \<Longrightarrow> insort_key f a ys = insort_key g a ys"
  by (induction ys) auto

lemma sort_key_agree:
  "\<forall>x\<in>set xs. f x = g x \<Longrightarrow> sort_key f xs = sort_key g xs"
proof (induction xs)
  case Nil
  show ?case by simp
next
  case (Cons a as)
  then have "sort_key f as = sort_key g as"
    by simp
  moreover have "insort_key f a (sort_key g as) = insort_key g a (sort_key g as)"
    using Cons.prems by (intro insort_key_agree) simp_all
  ultimately show ?case by simp
qed

lemma sort_insights_numbers:
  assumes "\<forall>x\<in>set xs. is_insight x"
  shows "sort_insights env xs = Inr (sort_key (\<lambda>x. - confidence_of x) xs)"
proof (cases "length xs < 2")
  case True
  then have "xs = [] \<or> (\<exists>x. xs = [x])"
    by (cases xs) (auto simp: length_Suc_conv)
  with True show ?thesis
    by (auto simp: sort_insights_def)
next
  case False
  have n1: "\<not> list_ex (\<lambda>x. isl (confidence_number env x)) xs"
    using assms by (simp add: list_ex_iff is_insight_number)
  have n2: "\<not> list_ex (\<lambda>x. confidence_number env x = Inr None) xs"
    using assms by (simp add: list_ex_iff is_insight_number)
  have "\<forall>x\<in>set xs. - confidence_key env x = - confidence_of x"
    using assms by (simp add: is_insight_key)
  then have "sort_key (\<lambda>x. - confidence_key env x) xs = sort_key (\<lambda>x. - confidence_of x) xs"
    by (rule sort_key_agree)
  with False n1 n2 show ?thesis
    by (simp add: sort_insights_def Array_sort_sort_key)
qed

lemma forEach_warn_no_error:
  "\<forall>x\<in>set xs. \<exists>w. check x = Inr w \<Longrightarrow> snd (forEach_warn check warn i xs) = None"
proof (induction xs arbitrary: i)
  case Nil
  show ?case by simp
next
  case (Cons x xs)
  then obtain w where w: "check x = Inr w" by auto
  have "snd (forEach_warn check warn (i + 1) xs) = None"
    using Cons by simp
  with w show ?case
    by (auto split: prod.splits)
qed

lemma keywords_missing_total: "x \<noteq> JNull \<Longrightarrow> \<exists>w. keywords_missing x = Inr w"
  by (simp add: keywords_missing_def member_def)

lemma rank_insights_result:
  assumes "\<forall>x\<in>set xs. is_insight x"
  shows "snd (rank_insights env xs) = Inr (sort_key (\<lambda>x. - confidence_of x) (take 10 xs))"
proof -
  have cap: "snd (cap_insights xs) = take 10 xs"
    by (simp add: cap_insights_def)
  have ins: "\<forall>x\<in>set (take 10 xs). is_insight x"
    using assms by (auto dest: in_set_takeD)
  then have "\<forall>x\<in>set (take 10 xs). \<exists>w. keywords_missing x = Inr w"
    using keywords_missing_total is_insight_not_null by blast
  then have "snd (forEach_warn keywords_missing WarnInsightKeywords 0 (take 10 xs)) = None"
    by (rule forEach_warn_no_error)
  moreover have "sort_insights env (take 10 xs) =
      Inr (sort_key (\<lambda>x. - confidence_of x) (take 10 xs))"
    using ins by (rule sort_insights_numbers)
  ultimately show ?thesis
    using cap by (auto simp: rank_insights_def split: prod.splits option.splits)
qed

lemma sorted_wrt_descending:
  "sorted (map (\<lambda>x. - f x) xs) = sorted_wrt (\<lambda>a b. (f b :: int) \<le> f a) xs"
  by (induction xs) auto

lemma rank_insights_props:
  assumes "\<forall>x\<in>set xs. is_insight x"
  defines "rs \<equiv> sort_key (\<lambda>x. - confidence_of x) (take 10 xs)"
  shows "snd (rank_insights env xs) = Inr rs"
    and "length rs = min (length xs) 10"
    and "mset rs = mset (take 10 xs)"
    and "sorted_wrt (\<lambda>a b. confidence_of b \<le> confidence_of a) rs"
    and "filter (\<lambda>x. confidence_of x = c) rs = filter (\<lambda>x. confidence_of x = c) (take 10 xs)"
proof -
  show "snd (rank_insights env xs) = Inr rs"
    unfolding rs_def using assms(1) by (rule rank_insights_result)
  show "length rs = min (length xs) 10"
    by (simp add: rs_def)
  show "mset rs = mset (take 10 xs)"
    by (simp add: rs_def)
  have "sorted (map (\<lambda>x. - confidence_of x) rs)"
    by (simp add: rs_def)
  then show "sorted_wrt (\<lambda>a b. confidence_of b \<le> confidence_of a) rs"
    by (simp add: sorted_wrt_descending)
  have "filter (\<lambda>x. - confidence_of x = - c) rs = filter (\<lambda>x. - confidence_of x = - c) (take 10 xs)"
    unfolding rs_def by (rule sort_key_stable)
  then show "filter (\<lambda>x. confidence_of x = c) rs = filter (\<lambda>x. confidence_of x = c) (take 10 xs)"
    by simp
qed

text \<open>
  C1, as the code has it. For every sequence of more than ten insight records the ranking
  returns exactly ten elements: the first ten of the input (the cap of line 264 runs
  before the sort of line 277), reordered so that the confidence does not increase. They
  are the first ten the model emitted, not the ten of highest confidence.
\<close>

theorem ranking_caps_before_sorting:
  assumes "\<forall>x\<in>set insights. is_insight x" and "length insights > 10"
  shows "\<exists>ranked. snd (rank_insights env insights) = Inr ranked
           \<and> length ranked = 10
           \<and> mset ranked = mset (take 10 insights)
           \<and> sorted_wrt (\<lambda>a b. confidence_of b \<le> confidence_of a) ranked"
proof -
  let ?rs = "sort_key (\<lambda>x. - confidence_of x) (take 10 insights)"
  have "snd (rank_insights env insights) = Inr ?rs"
    using assms(1) by (rule rank_insights_props(1))
  moreover have "length ?rs = 10"
    using assms(2) by simp
  moreover have "mset ?rs = mset (take 10 insights)"
    by simp
  moreover have "sorted_wrt (\<lambda>a b. confidence_of b \<le> confidence_of a) ?rs"
    using assms(1) by (rule rank_insights_props(4))
  ultimately show ?thesis by blast
qed

theorem ranking_caps_before_sorting_witness:
  "list_all is_insight eleven_insights \<and> length eleven_insights > 10
   \<and> (\<exists>ranked. snd (rank_insights (sample_env JNull) eleven_insights) = Inr ranked
           \<and> length ranked = 10
           \<and> mset ranked = mset (take 10 eleven_insights)
           \<and> sorted_wrt (\<lambda>a b. confidence_of b \<le> confidence_of a) ranked)"
proof -
  have h1: "\<forall>x\<in>set eleven_insights. is_insight x"
    by (simp add: eleven_insights_def sample_insight_def)
  have h2: "length eleven_insights > 10"
    by (simp add: eleven_insights_def)
  show ?thesis
    using h1 h2 ranking_caps_before_sorting [OF h1 h2, of "sample_env JNull"]
    unfolding list_all_iff by blast
qed

text \<open>
  C1, as the spec states it, fails: of eleven insights with confidences 70, ..., 79, 95 in
  the order emitted, the result holds the ten with confidences 79 down to 70, and the
  insight of confidence 95 is dropped.
\<close>

theorem ranking_keeps_ten_highest_counterexample:
  "length eleven_insights = 11
   \<and> confidence_of (sample_insight ''k'' 95) = 95
   \<and> snd (rank_insights (sample_env JNull) eleven_insights) =
       Inr [sample_insight ''j'' 79, sample_insight ''i'' 78, sample_insight ''h'' 77,
            sample_insight ''g'' 76, sample_insight ''f'' 75, sample_insight ''e'' 74,
            sample_insight ''d'' 73, sample_insight ''c'' 72, sample_insight ''b'' 71,
            sample_insight ''a'' 70]"
proof -
  have "\<forall>x\<in>set eleven_insights. is_insight x"
    by (simp add: eleven_insights_def sample_insight_def)
  then have "snd (rank_insights (sample_env JNull) eleven_insights) =
      Inr (sort_key (\<lambda>x. - confidence_of x) (take 10 eleven_insights))"
    by (rule rank_insights_result)
  then show ?thesis
    by (simp add: eleven_insights_def sample_insight_def)
qed

text \<open>
  C2. For every sequence of insight records the returned sequence is non-increasing in
  confidence and has at most ten elements, and the returned insights of any one
  confidence are in the order they have in the input: they are the first of that
  confidence there, followed in the input only by those the cap removed.
\<close>

theorem ranking_sorted_capped_stable:
  assumes "\<forall>x\<in>set insights. is_insight x"
  shows "\<exists>ranked. snd (rank_insights env insights) = Inr ranked
           \<and> length ranked \<le> 10
           \<and> sorted_wrt (\<lambda>a b. confidence_of b \<le> confidence_of a) ranked
           \<and> (\<forall>c. filter (\<lambda>x. confidence_of x = c) insights =
                    filter (\<lambda>x. confidence_of x = c) ranked
                      @ filter (\<lambda>x. confidence_of x = c) (drop 10 insights))"
proof -
  let ?rs = "sort_key (\<lambda>x. - confidence_of x) (take 10 insights)"
  have res: "snd (rank_insights env insights) = Inr ?rs"
    using assms by (rule rank_insights_props(1))
  have len: "length ?rs \<le> 10"
    by simp
  have srt: "sorted_wrt (\<lambda>a b. confidence_of b \<le> confidence_of a) ?rs"
    using assms by (rule rank_insights_props(4))
  have stable: "filter (\<lambda>x. confidence_of x = c) insights =
      filter (\<lambda>x. confidence_of x = c) ?rs @ filter (\<lambda>x. confidence_of x = c) (drop 10 insights)"
    for c
  proof -
    have "filter (\<lambda>x. confidence_of x = c) ?rs = filter (\<lambda>x. confidence_of x = c) (take 10 insights)"
      using assms by (rule rank_insights_props(5))
    moreover have "filter (\<lambda>x. confidence_of x = c) (take 10 insights)
          @ filter (\<lambda>x. confidence_of x = c) (drop 10 insights)
        = filter (\<lambda>x. confidence_of x = c) (take 10 insights @ drop 10 insights)"
      by (rule filter_append [symmetric])
    ultimately show ?thesis by simp
  qed
  from res len srt stable show ?thesis by blast
qed

theorem ranking_sorted_capped_stable_witness:
  "list_all is_insight
     [sample_insight ''a'' 80, sample_insight ''b'' 90, sample_insight ''c'' 80]
   \<and> snd (rank_insights (sample_env JNull)
        [sample_insight ''a'' 80, sample_insight ''b'' 90, sample_insight ''c'' 80]) =
       Inr [sample_insight ''b'' 90, sample_insight ''a'' 80, sample_insight ''c'' 80]
   \<and> (\<exists>ranked. snd (rank_insights (sample_env JNull)
          [sample_insight ''a'' 80, sample_insight ''b'' 90, sample_insight ''c'' 80]) = Inr ranked
         \<and> length ranked \<le> 10
         \<and> sorted_wrt (\<lambda>a b. confidence_of b \<le> confidence_of a) ranked
         \<and> (\<forall>c. filter (\<lambda>x. confidence_of x = c)
                    [sample_insight ''a'' 80, sample_insight ''b'' 90, sample_insight ''c'' 80] =
                  filter (\<lambda>x. confidence_of x = c) ranked
                    @ filter (\<lambda>x. confidence_of x = c)
                        (drop 10 [sample_insight ''a'' 80, sample_insight ''b'' 90,
                                  sample_insight ''c'' 80])))"
proof -
  let ?xs = "[sample_insight ''a'' 80, sample_insight ''b'' 90, sample_insight ''c'' 80]"
  have h: "\<forall>x\<in>set ?xs. is_insight x"
    by (simp add: sample_insight_def)
  have "snd (rank_insights (sample_env JNull) ?xs) =
      Inr (sort_key (\<lambda>x. - confidence_of x) (take 10 ?xs))"
    using h by (rule rank_insights_result)
  then have v: "snd (rank_insights (sample_env JNull) ?xs) =
      Inr [sample_insight ''b'' 90, sample_insight ''a'' 80, sample_insight ''c'' 80]"
    by (simp add: sample_insight_def)
  show ?thesis
    using h v ranking_sorted_capped_stable [OF h, of "sample_env JNull"]
    unfolding list_all_iff by blast
qed
section \<open>The completion client\<close>

lemma falsy_truthy: "falsy v = (\<not> truthy_opt v)"
proof (cases v)
  case None
  then show ?thesis by (simp add: falsy_def)
next
  case (Some w)
  then show ?thesis by (cases w) (auto simp: falsy_def)
qed

lemma first_element_choice: "c \<noteq> JNull \<Longrightarrow> first_element (Some c) = Inr (first_choice c)"
  by (cases c rule: first_choice.cases) simp_all

lemma opt_member_content:
  "opt_member (opt_member (first_choice c) ''message'') ''content'' = first_content c"
  by (simp add: first_content_def split: option.splits)

lemma message_text_absent:
  "own_prop data ''choices'' = None \<Longrightarrow> message_text data = Inl TypeError"
  by (simp add: message_text_def member_def)

lemma message_text_null:
  "own_prop data ''choices'' = Some JNull \<Longrightarrow> message_text data = Inl TypeError"
  by (auto simp: message_text_def member_def)

lemma message_text_present:
  assumes "own_prop data ''choices'' = Some c" and "c \<noteq> JNull"
  shows "message_text data = Inr (or_else (first_content c) (JStr []))"
proof -
  have "data \<noteq> JNull" using assms(1) by auto
  with assms show ?thesis
    by (simp add: message_text_def member_def first_element_choice opt_member_content)
qed

lemma or_else_falsy: "falsy v \<Longrightarrow> or_else v d = d"
  by (cases v) (auto simp: falsy_truthy)

lemma or_else_truthy: "\<not> falsy (Some v) \<Longrightarrow> or_else (Some v) d = v"
  by (simp add: falsy_truthy)

lemma callOpenAI_success:
  assumes "OPENAI_API_KEY env \<noteq> []"
    and "fetch env (request_of env messages temperature) = Inr response"
    and "ok response" and "body response = Some data"
  shows "callOpenAI env messages temperature =
           ([request_of env messages temperature], message_text data)"
  using assms by (simp add: callOpenAI_def)

text \<open>
  C9, as the code has it, on a successful response with the body \<open>data\<close>. The client
  fails with a \<^verbatim>\<open>TypeError\<close> exactly when \<open>data\<close> has no \<^verbatim>\<open>choices\<close> (or a
  \<^verbatim>\<open>choices\<close> that is \<^verbatim>\<open>null\<close>): the read \<^verbatim>\<open>data.choices[0]\<close> throws and no
  empty string is returned. When \<^verbatim>\<open>choices\<close> is present the client returns the
  content of the first choice's message if that is truthy, and the empty string in every
  other case: for the empty array, and as well for a first choice without a message or
  with an absent, \<^verbatim>\<open>null\<close> or empty content.
\<close>

theorem choices_fallback_rule:
  assumes "OPENAI_API_KEY env \<noteq> []"
    and "fetch env (request_of env messages temperature) = Inr response"
    and "ok response" and "body response = Some data"
  shows "((snd (callOpenAI env messages temperature) = Inl TypeError)
            = (own_prop data ''choices'' = None \<or> own_prop data ''choices'' = Some JNull))
       \<and> (own_prop data ''choices'' = Some (JArr []) \<longrightarrow>
            snd (callOpenAI env messages temperature) = Inr (JStr []))
       \<and> (\<forall>c. own_prop data ''choices'' = Some c \<and> c \<noteq> JNull \<longrightarrow>
            (falsy (first_content c) \<longrightarrow>
               snd (callOpenAI env messages temperature) = Inr (JStr []))
          \<and> (\<forall>v. first_content c = Some v \<and> \<not> falsy (Some v) \<longrightarrow>
               snd (callOpenAI env messages temperature) = Inr v))"
proof -
  have r: "snd (callOpenAI env messages temperature) = message_text data"
    using assms by (simp add: callOpenAI_success)
  have present: "message_text data = Inr (or_else (first_content c) (JStr []))"
    if "own_prop data ''choices'' = Some c" and "c \<noteq> JNull" for c
    using that by (rule message_text_present)
  have a: "(message_text data = Inl TypeError)
      = (own_prop data ''choices'' = None \<or> own_prop data ''choices'' = Some JNull)"
  proof (cases "own_prop data ''choices''")
    case None
    then show ?thesis by (simp add: message_text_absent)
  next
    case (Some c)
    show ?thesis
    proof (cases "c = JNull")
      case True
      with Some show ?thesis by (simp add: message_text_null)
    next
      case False
      with Some show ?thesis by (simp add: present)
    qed
  qed
  have b: "message_text data = Inr (JStr [])" if "own_prop data ''choices'' = Some (JArr [])"
    using that by (simp add: present first_content_def)
  have c1: "message_text data = Inr (JStr [])"
    if "own_prop data ''choices'' = Some c" and "c \<noteq> JNull" and "falsy (first_content c)" for c
    using that by (simp add: present or_else_falsy)
  have c2: "message_text data = Inr v"
    if "own_prop data ''choices'' = Some c" and "c \<noteq> JNull" and "first_content c = Some v"
      and "\<not> falsy (Some v)" for c v
  proof -
    have "or_else (Some v) (JStr []) = v"
      using that(4) by (rule or_else_truthy)
    then have "or_else (first_content c) (JStr []) = v"
      by (simp only: that(3))
    with that(1,2) show ?thesis by (simp add: present)
  qed
  from a b c1 c2 show ?thesis
    unfolding r by blast
qed

theorem choices_fallback_rule_witness:
  "OPENAI_API_KEY (sample_env (JObj [])) \<noteq> []
   \<and> own_prop (JObj []) ''choices'' = None
   \<and> snd (callOpenAI (sample_env (JObj [])) [] (7 / 10)) = Inl TypeError
   \<and> own_prop (JObj [(''choices'', JArr [])]) ''choices'' = Some (JArr [])
   \<and> snd (callOpenAI (sample_env (JObj [(''choices'', JArr [])])) [] (7 / 10)) = Inr (JStr [])
   \<and> first_content (JArr [JObj [(''message'', JObj [(''content'', JStr ''x'')])]]) =
       Some (JStr ''x'')
   \<and> snd (callOpenAI (sample_env (completion ''x'')) [] (7 / 10)) = Inr (JStr ''x'')"
proof -
  have k: "OPENAI_API_KEY (sample_env d) \<noteq> []" for d
    by (simp add: sample_env_def)
  have f: "fetch (sample_env d) (request_of (sample_env d) [] (7 / 10))
      = Inr \<lparr>ok = True, statusText = ''OK'', body = Some d\<rparr>" for d
    by (simp add: sample_env_def reply_with_def)
  have o: "ok \<lparr>ok = True, statusText = ''OK'', body = Some d\<rparr>" for d :: json
    by simp
  have b: "body \<lparr>ok = True, statusText = ''OK'', body = Some d\<rparr> = Some d" for d :: json
    by simp
  have x: "first_content (JArr [JObj [(''message'', JObj [(''content'', JStr ''x'')])]]) =
      Some (JStr ''x'')"
    by (simp add: first_content_def)
  have nf: "\<not> falsy (Some (JStr ''x''))"
    by (simp add: falsy_def)
  have p: "own_prop (completion ''x'') ''choices'' =
      Some (JArr [JObj [(''message'', JObj [(''content'', JStr ''x'')])]])"
    by (simp add: completion_def)
  show ?thesis
    using k x nf p choices_fallback_rule [OF k f o b, of "JObj []"]
      choices_fallback_rule [OF k f o b, of "JObj [(''choices'', JArr [])]"]
      choices_fallback_rule [OF k f o b, of "completion ''x''"]
    by simp
qed

text \<open>
  C9, as the spec states it, fails: the fallback also applies when \<^verbatim>\<open>choices\<close> is
  not the empty array. For the body \<^verbatim>\<open>{"choices":[{}]}\<close> the client returns the empty
  string.
\<close>

theorem fallback_on_nonempty_choices_counterexample:
  "own_prop (JObj [(''choices'', JArr [JObj []])]) ''choices'' = Some (JArr [JObj []])
   \<and> callOpenAI (sample_env (JObj [(''choices'', JArr [JObj []])])) [] (7 / 10) =
       ([request_of (sample_env (JObj [(''choices'', JArr [JObj []])])) [] (7 / 10)],
        Inr (JStr []))"
  by (simp add: callOpenAI_def sample_env_def reply_with_def message_text_def member_def)

section \<open>The two phases\<close>

text \<open>
  C4. On the empty article set the deep analysis returns the empty sequence, and on the
  empty summary set the insight generation returns the empty sequence; neither sends a
  request, writes to the console or fails.
\<close>

theorem empty_input_short_circuit:
  "deepAnalyzeArticles env [] = \<lparr>calls = [], console = [], result = Inr []\<rparr>
   \<and> generateSmartTopicInsights env [] st = \<lparr>calls = [], console = [], result = Inr []\<rparr>"
  by (simp add: deepAnalyzeArticles_def generateSmartTopicInsights_def)

lemma deepAnalyzeArticles_response:
  assumes "articles \<noteq> []"
    and "callOpenAI env (deepAnalyze_messages articles) (3 / 10) = (sent, Inr response)"
  shows "deepAnalyzeArticles env articles =
           \<lparr>calls = sent, console = fst (deepAnalyze_response env response),
            result = snd (deepAnalyze_response env response)\<rparr>"
  using assms by (simp add: deepAnalyzeArticles_def split: prod.splits)

lemma generateSmartTopicInsights_response:
  assumes "summaries \<noteq> []"
    and "callOpenAI env (insight_messages summaries st) (4 / 10) = (sent, Inr response)"
  shows "generateSmartTopicInsights env summaries st =
           \<lparr>calls = sent, console = fst (generateInsights_response env response),
            result = snd (generateInsights_response env response)\<rparr>"
  using assms by (simp add: generateSmartTopicInsights_def split: prod.splits)

section \<open>Validation of the summaries\<close>

lemma forEach_warn_log:
  "\<forall>x\<in>set xs. check x = Inr (p x) \<Longrightarrow>
   forEach_warn check warn i xs =
     (map (\<lambda>(j, x). warn (j + 1)) (filter (\<lambda>(j, x). p x) (enumerate i xs)), None)"
  by (induction xs arbitrary: i) auto

lemma snd_forEach_warn_Cons:
  "snd (forEach_warn check warn i (x # xs)) =
     (case check x of Inl e \<Rightarrow> Some e | Inr w \<Rightarrow> snd (forEach_warn check warn (i + 1) xs))"
  by (simp split: sum.splits prod.splits)

lemma forEach_warn_null:
  assumes "x \<in> set xs" and "check x = Inl e"
    and only: "\<And>y e'. check y = Inl e' \<Longrightarrow> e' = e"
  shows "snd (forEach_warn check warn i xs) = Some e"
  using assms(1)
proof (induction xs arbitrary: i)
  case Nil
  then show ?case by simp
next
  case (Cons a as)
  show ?case
  proof (cases "check a")
    case (Inl e')
    then have "e' = e" by (rule only)
    with Inl show ?thesis by (simp only: snd_forEach_warn_Cons sum.case)
  next
    case (Inr w)
    with Cons.prems assms(2) have "x \<in> set as" by auto
    then have "snd (forEach_warn check warn (i + 1) as) = Some e"
      by (rule Cons.IH)
    with Inr show ?thesis by (simp only: snd_forEach_warn_Cons sum.case)
  qed
qed

lemma summary_incomplete_record:
  "s \<noteq> JNull \<Longrightarrow> summary_incomplete s = Inr (targeting_incomplete s)"
  by (auto simp: summary_incomplete_def member_def targeting_incomplete_def falsy_truthy)

lemma keywords_missing_record:
  "x \<noteq> JNull \<Longrightarrow> keywords_missing x = Inr (keyword_fields_incomplete x)"
  by (auto simp: keywords_missing_def member_def keyword_fields_incomplete_def falsy_truthy
      keyword_field_def split: option.splits)

lemma validate_summaries_records:
  assumes "JNull \<notin> set summaries"
  shows "validate_summaries summaries =
     (map (\<lambda>(i, s). WarnSummaryFields (i + 1))
        (filter (\<lambda>(i, s). targeting_incomplete s) (enumerate 0 summaries)), Inr summaries)"
proof -
  have "\<forall>s\<in>set summaries. summary_incomplete s = Inr (targeting_incomplete s)"
    using assms summary_incomplete_record by metis
  then show ?thesis
    by (simp add: validate_summaries_def forEach_warn_log [where p = targeting_incomplete])
qed

lemma validate_summaries_null:
  assumes "JNull \<in> set summaries"
  shows "snd (validate_summaries summaries) = Inl TypeError"
proof -
  have n: "summary_incomplete JNull = Inl TypeError"
    by (simp add: summary_incomplete_def member_def)
  have "e' = TypeError" if "summary_incomplete y = Inl e'" for y e'
    using that by (auto simp: summary_incomplete_def member_def split: if_splits)
  with assms n have "snd (forEach_warn summary_incomplete WarnSummaryFields 0 summaries) = Some TypeError"
    by (rule forEach_warn_null)
  then show ?thesis
    by (auto simp: validate_summaries_def split: prod.splits option.splits)
qed

lemma warning_listed:
  assumes "inj warn"
  shows "(warn (i + 1) \<in> set (map (\<lambda>(j, x). warn (j + 1)) (filter (\<lambda>(j, x). p x) (enumerate 0 xs))))
         = (i < length xs \<and> p (xs ! i))"
proof -
  have "(warn (i + 1) \<in> set (map (\<lambda>(j, x). warn (j + 1)) (filter (\<lambda>(j, x). p x) (enumerate 0 xs))))
      = (\<exists>j x. (j, x) \<in> set (enumerate 0 xs) \<and> p x \<and> warn (i + 1) = warn (j + 1))"
    by (auto simp: image_iff)
  also have "\<dots> = (\<exists>j x. (j, x) \<in> set (enumerate 0 xs) \<and> p x \<and> i = j)"
    using assms by (auto dest: injD)
  also have "\<dots> = (i < length xs \<and> p (xs ! i))"
    by (auto simp: in_set_enumerate_eq)
  finally show ?thesis .
qed

lemma inj_WarnSummaryFields: "inj WarnSummaryFields"
  by (simp add: inj_def)

lemma inj_WarnInsightKeywords: "inj WarnInsightKeywords"
  by (simp add: inj_def)

lemma targeting_absent_incomplete: "targeting_absent s \<Longrightarrow> targeting_incomplete s"
  by (auto simp: targeting_absent_def targeting_incomplete_def falsy_def)

lemma deepAnalyze_response_array:
  assumes "JSON_parse env (clean_response text) = Some parsed"
    and "own_prop parsed ''summaries'' = Some (JArr summaries)"
  shows "deepAnalyze_try env (JStr text) = validate_summaries summaries"
proof -
  have "parsed \<noteq> JNull" using assms(2) by auto
  with assms show ?thesis
    by (simp add: deepAnalyze_try_def member_def)
qed

text \<open>
  C5, as the code has it. When the response parses to an object whose \<^verbatim>\<open>summaries\<close>
  is an array that holds no \<^verbatim>\<open>null\<close>, the deep analysis returns that array as it
  is: nothing is removed or changed.
  The warnings written are those of the records with an absent or empty targeting field,
  each with the record's position; in particular a record that lacks
  \<^verbatim>\<open>targetAudience\<close>, \<^verbatim>\<open>scenario\<close> or \<^verbatim>\<open>painPoint\<close> gets its warning and stays
  in the result.
\<close>

theorem validation_keeps_records:
  assumes "articles \<noteq> []"
    and "callOpenAI env (deepAnalyze_messages articles) (3 / 10) = (sent, Inr (JStr text))"
    and "JSON_parse env (clean_response text) = Some parsed"
    and "own_prop parsed ''summaries'' = Some (JArr summaries)"
    and "JNull \<notin> set summaries"
  shows "result (deepAnalyzeArticles env articles) = Inr summaries
       \<and> console (deepAnalyzeArticles env articles) =
           map (\<lambda>(i, s). WarnSummaryFields (i + 1))
             (filter (\<lambda>(i, s). targeting_incomplete s) (enumerate 0 summaries))
       \<and> (\<forall>i<length summaries. targeting_absent (summaries ! i) \<longrightarrow>
             WarnSummaryFields (i + 1) \<in> set (console (deepAnalyzeArticles env articles)))"
proof -
  let ?warnings = "map (\<lambda>(i, s). WarnSummaryFields (i + 1))
             (filter (\<lambda>(i, s). targeting_incomplete s) (enumerate 0 summaries))"
  have "deepAnalyze_try env (JStr text) = (?warnings, Inr summaries)"
    using assms(3,4,5) by (simp add: deepAnalyze_response_array validate_summaries_records)
  then have "deepAnalyze_response env (JStr text) = (?warnings, Inr summaries)"
    by (simp add: deepAnalyze_response_def)
  then have out: "deepAnalyzeArticles env articles =
      \<lparr>calls = sent, console = ?warnings, result = Inr summaries\<rparr>"
    using assms(1,2) by (simp add: deepAnalyzeArticles_response)
  have "WarnSummaryFields (i + 1) \<in> set ?warnings"
    if "i < length summaries" and "targeting_absent (summaries ! i)" for i
    using that inj_WarnSummaryFields
    by (simp only: warning_listed targeting_absent_incomplete)
  with out show ?thesis by simp
qed

lemma sample_call:
  "callOpenAI (sample_env (completion t)) ms temp =
     ([request_of (sample_env (completion t)) ms temp], Inr (if t = [] then JStr [] else JStr t))"
  by (simp add: callOpenAI_def sample_env_def reply_with_def completion_def message_text_def
      member_def)

lemma clean_summaries_text: "clean_response summaries_text = summaries_text"
  by (simp add: clean_response_def summaries_text_def trim_def startsWith_def fence_def
       is_white_space_def)

theorem validation_keeps_records_witness:
  "[sample_article] \<noteq> []
   \<and> JNull \<notin> set [JObj [(''scenario'', JStr ''s''), (''painPoint'', JStr ''p'')]]
   \<and> result (deepAnalyzeArticles (sample_env (completion summaries_text)) [sample_article]) =
       Inr [JObj [(''scenario'', JStr ''s''), (''painPoint'', JStr ''p'')]]
   \<and> console (deepAnalyzeArticles (sample_env (completion summaries_text)) [sample_article]) =
       [WarnSummaryFields 1]"
proof -
  let ?env = "sample_env (completion summaries_text)"
  let ?parsed = "JObj [(''summaries'', JArr [JObj [(''scenario'', JStr ''s''),
                                           (''painPoint'', JStr ''p'')]])]"
  have h1: "[sample_article] \<noteq> []" by simp
  have h2: "callOpenAI ?env (deepAnalyze_messages [sample_article]) (3 / 10) =
      ([request_of ?env (deepAnalyze_messages [sample_article]) (3 / 10)],
       Inr (JStr summaries_text))"
    by (simp add: sample_call summaries_text_def)
  have h3: "JSON_parse ?env (clean_response summaries_text) = Some ?parsed"
    by (simp add: clean_summaries_text) (simp add: sample_env_def sample_parse_def summaries_text_def)
  have h4: "own_prop ?parsed ''summaries'' =
      Some (JArr [JObj [(''scenario'', JStr ''s''), (''painPoint'', JStr ''p'')]])"
    by simp
  have h5: "JNull \<notin> set [JObj [(''scenario'', JStr ''s''), (''painPoint'', JStr ''p'')]]"
    by simp
  show ?thesis
    using h5 validation_keeps_records [OF h1 h2 h3 h4 h5]
    by (simp add: targeting_incomplete_def falsy_def)
qed

lemma clean_summaries_null_text: "clean_response summaries_null_text = summaries_null_text"
  by (simp add: clean_response_def summaries_null_text_def trim_def startsWith_def fence_def
       is_white_space_def)

text \<open>
  C5, as the spec states it, fails on a parsed array that holds \<^verbatim>\<open>null\<close>: for
  \<^verbatim>\<open>[record, null]\<close> the check of line 129 throws at the second element, inside the
  \<^verbatim>\<open>try\<close>, and the operation fails; the record is not returned.
\<close>

theorem validation_null_element_counterexample:
  "JSON_parse (sample_env (completion summaries_null_text))
       (clean_response summaries_null_text) =
     Some (JObj [(''summaries'', JArr [JObj [(''scenario'', JStr ''s''),
                                             (''painPoint'', JStr ''p'')], JNull])])
   \<and> deepAnalyzeArticles (sample_env (completion summaries_null_text)) [sample_article] =
       \<lparr>calls = [request_of (sample_env (completion summaries_null_text))
                   (deepAnalyze_messages [sample_article]) (3 / 10)],
        console = [WarnSummaryFields 1, ErrorRawResponse (JStr summaries_null_text)],
        result = Inl DeepAnalysisFailed\<rparr>"
proof -
  let ?env = "sample_env (completion summaries_null_text)"
  let ?parsed = "JObj [(''summaries'', JArr [JObj [(''scenario'', JStr ''s''),
                                             (''painPoint'', JStr ''p'')], JNull])]"
  have p: "JSON_parse ?env (clean_response summaries_null_text) = Some ?parsed"
    by (simp add: clean_summaries_null_text)
      (simp add: sample_env_def sample_parse_def summaries_text_def summaries_null_text_def)
  have c: "callOpenAI ?env (deepAnalyze_messages [sample_article]) (3 / 10) =
      ([request_of ?env (deepAnalyze_messages [sample_article]) (3 / 10)],
       Inr (JStr summaries_null_text))"
    by (simp add: sample_call summaries_null_text_def)
  have "deepAnalyze_response ?env (JStr summaries_null_text) =
      ([WarnSummaryFields 1, ErrorRawResponse (JStr summaries_null_text)],
       Inl DeepAnalysisFailed)"
    using p
    by (simp add: deepAnalyze_response_def deepAnalyze_try_def member_def
        validate_summaries_def summary_incomplete_def)
  with p c show ?thesis
    by (simp add: deepAnalyzeArticles_response)
qed

section \<open>Validation of the insights\<close>

lemma cap_insights_eq:
  "cap_insights insights = (if insights = [] then [WarnNoInsights] else [], take 10 insights)"
  by (simp add: cap_insights_def)

lemma rank_insights_console:
  "fst (rank_insights env insights) =
     (if insights = [] then [WarnNoInsights] else [])
       @ fst (forEach_warn keywords_missing WarnInsightKeywords 0 (take 10 insights))"
  by (simp add: rank_insights_def cap_insights_eq split: prod.splits option.splits)

lemma rank_insights_records:
  assumes "JNull \<notin> set (take 10 insights)"
  shows "rank_insights env insights =
     ((if insights = [] then [WarnNoInsights] else [])
        @ map (\<lambda>(i, x). WarnInsightKeywords (i + 1))
            (filter (\<lambda>(i, x). keyword_fields_incomplete x) (enumerate 0 (take 10 insights))),
      sort_insights env (take 10 insights))"
proof -
  have "\<forall>x\<in>set (take 10 insights). keywords_missing x = Inr (keyword_fields_incomplete x)"
    using assms keywords_missing_record by metis
  then have "forEach_warn keywords_missing WarnInsightKeywords 0 (take 10 insights) =
      (map (\<lambda>(i, x). WarnInsightKeywords (i + 1))
         (filter (\<lambda>(i, x). keyword_fields_incomplete x) (enumerate 0 (take 10 insights))), None)"
    by (rule forEach_warn_log)
  then show ?thesis
    by (simp add: rank_insights_def cap_insights_eq)
qed

lemma rank_insights_null:
  assumes "JNull \<in> set (take 10 insights)"
  shows "snd (rank_insights env insights) = Inl TypeError"
proof -
  have n: "keywords_missing JNull = Inl TypeError"
    by (simp add: keywords_missing_def member_def)
  have "e' = TypeError" if "keywords_missing y = Inl e'" for y e'
    using that by (auto simp: keywords_missing_def member_def split: if_splits)
  with assms n
  have "snd (forEach_warn keywords_missing WarnInsightKeywords 0 (take 10 insights)) = Some TypeError"
    by (rule forEach_warn_null)
  then show ?thesis
    by (auto simp: rank_insights_def cap_insights_eq split: prod.splits option.splits)
qed

lemma fst_forEach_warn_Cons:
  "check x = Inr w \<Longrightarrow>
   fst (forEach_warn check warn n (x # xs)) =
     (if w then [warn (n + 1)] else []) @ fst (forEach_warn check warn (n + 1) xs)"
  by (simp split: prod.splits)

lemma forEach_warn_append:
  "\<forall>x\<in>set ys. check x = Inr (p x) \<Longrightarrow>
   fst (forEach_warn check warn n (ys @ zs)) =
     map (\<lambda>(j, x). warn (j + 1)) (filter (\<lambda>(j, x). p x) (enumerate n ys))
       @ fst (forEach_warn check warn (n + length ys) zs)"
proof (induction ys arbitrary: n)
  case Nil
  then show ?case by simp
next
  case (Cons y ys)
  have y: "check y = Inr (p y)" and rest: "\<forall>x\<in>set ys. check x = Inr (p x)"
    using Cons.prems by simp_all
  have "fst (forEach_warn check warn n ((y # ys) @ zs)) =
      (if p y then [warn (n + 1)] else []) @ fst (forEach_warn check warn (n + 1) (ys @ zs))"
    unfolding append_Cons using y by (rule fst_forEach_warn_Cons)
  also have "fst (forEach_warn check warn (n + 1) (ys @ zs)) =
      map (\<lambda>(j, x). warn (j + 1)) (filter (\<lambda>(j, x). p x) (enumerate (n + 1) ys))
        @ fst (forEach_warn check warn (n + 1 + length ys) zs)"
    using rest by (rule Cons.IH)
  finally show ?case by simp
qed

lemma forEach_warn_later:
  "w \<in> set (fst (forEach_warn check warn n zs)) \<Longrightarrow> \<exists>j\<ge>n. w = warn (j + 1)"
proof (induction zs arbitrary: n)
  case Nil
  then show ?case by simp
next
  case (Cons z zs)
  show ?case
  proof (cases "check z")
    case (Inl e)
    with Cons.prems show ?thesis by simp
  next
    case (Inr b)
    with Cons.prems
    have "w = warn (n + 1) \<or> w \<in> set (fst (forEach_warn check warn (n + 1) zs))"
      by (auto split: prod.splits if_splits)
    then show ?thesis
    proof
      assume "w = warn (n + 1)"
      then show ?thesis by blast
    next
      assume "w \<in> set (fst (forEach_warn check warn (n + 1) zs))"
      then obtain j where "j \<ge> n + 1" and "w = warn (j + 1)"
        using Cons.IH by blast
      then have "j \<ge> n \<and> w = warn (j + 1)" by simp
      then show ?thesis by blast
    qed
  qed
qed

text \<open>
  C7, as the code has it. The validation runs over the first ten insights and stops, by
  throwing, at the first \<^verbatim>\<open>null\<close> among them. For a record that it reaches (no
  \<^verbatim>\<open>null\<close> at or before its position) the warning of line 272 is written exactly
  when one of \<^verbatim>\<open>keywords.scene\<close>, \<^verbatim>\<open>keywords.audience\<close>, \<^verbatim>\<open>keywords.need\<close> is
  absent or falsy (\<^verbatim>\<open>null\<close>, \<^verbatim>\<open>false\<close>, \<open>0\<close>, the empty string). Such a record
  without a \<^verbatim>\<open>keywords\<close> object, as the prompt's schema has it, always gets the
  warning, whatever else it holds.
\<close>

theorem keyword_warning_rule:
  assumes "i < length insights" and "i < 10" and "JNull \<notin> set (take (Suc i) insights)"
  shows "(WarnInsightKeywords (i + 1) \<in> set (fst (rank_insights env insights)))
           = keyword_fields_incomplete (insights ! i)
       \<and> (own_prop (insights ! i) ''keywords'' = None \<longrightarrow>
            WarnInsightKeywords (i + 1) \<in> set (fst (rank_insights env insights)))"
proof -
  let ?ys = "take (Suc i) insights"
  let ?zs = "drop (Suc i) (take 10 insights)"
  let ?A = "map (\<lambda>(j, x). WarnInsightKeywords (j + 1))
      (filter (\<lambda>(j, x). keyword_fields_incomplete x) (enumerate 0 ?ys))"
  let ?B = "fst (forEach_warn keywords_missing WarnInsightKeywords (0 + length ?ys) ?zs)"
  have "take (Suc i) (take 10 insights) = ?ys"
    using assms(2) by (simp add: min_def)
  then have split: "take 10 insights = ?ys @ ?zs"
    by (metis append_take_drop_id)
  have "\<forall>x\<in>set ?ys. keywords_missing x = Inr (keyword_fields_incomplete x)"
    using assms(3) keywords_missing_record by metis
  then have "fst (forEach_warn keywords_missing WarnInsightKeywords 0 (?ys @ ?zs)) = ?A @ ?B"
    by (rule forEach_warn_append)
  then have console: "fst (rank_insights env insights) =
      (if insights = [] then [WarnNoInsights] else []) @ ?A @ ?B"
    using split by (simp add: rank_insights_console)
  have len: "length ?ys = Suc i"
    using assms(1) by simp
  have notB: "WarnInsightKeywords (i + 1) \<notin> set ?B"
  proof
    assume "WarnInsightKeywords (i + 1) \<in> set ?B"
    then obtain j where "j \<ge> 0 + length ?ys"
      and "WarnInsightKeywords (i + 1) = WarnInsightKeywords (j + 1)"
      using forEach_warn_later by blast
    with len show False by simp
  qed
  have "(WarnInsightKeywords (i + 1) \<in> set ?A)
      = (i < length ?ys \<and> keyword_fields_incomplete (?ys ! i))"
    using inj_WarnInsightKeywords by (rule warning_listed)
  also have "\<dots> = keyword_fields_incomplete (insights ! i)"
    using len by simp
  finally have inA: "(WarnInsightKeywords (i + 1) \<in> set ?A)
      = keyword_fields_incomplete (insights ! i)" .
  have iff: "(WarnInsightKeywords (i + 1) \<in> set (fst (rank_insights env insights)))
      = keyword_fields_incomplete (insights ! i)"
    using console notB inA by auto
  have "keyword_fields_incomplete (insights ! i)" if "own_prop (insights ! i) ''keywords'' = None"
    using that by (simp add: keyword_fields_incomplete_def keyword_field_def falsy_def)
  with iff show ?thesis by simp
qed

theorem keyword_warning_rule_witness:
  "(0::nat) < length [schema_insight] \<and> (0::nat) < 10
   \<and> JNull \<notin> set (take (Suc 0) [schema_insight])
   \<and> own_prop ([schema_insight] ! 0) ''keywords'' = None
   \<and> WarnInsightKeywords (0 + 1) \<in> set (fst (rank_insights (sample_env JNull) [schema_insight]))"
proof -
  have h1: "(0::nat) < length [schema_insight]" by simp
  have h2: "(0::nat) < 10" by simp
  have h3: "JNull \<notin> set (take (Suc 0) [schema_insight])" by (simp add: schema_insight_def)
  have h4: "own_prop ([schema_insight] ! 0) ''keywords'' = None" by (simp add: schema_insight_def)
  show ?thesis
    using h1 h2 h3 h4 keyword_warning_rule [OF h1 h2 h3, of "sample_env JNull"] by blast
qed

text \<open>
  C7, as the spec states it, fails in one direction: a record whose three keyword fields
  are all present, the scene being the empty string, gets the warning.
\<close>

theorem keyword_warning_absent_counterexample:
  "\<not> keyword_fields_absent empty_scene_insight
   \<and> fst (rank_insights (sample_env JNull) [empty_scene_insight]) = [WarnInsightKeywords 1]"
  by (simp add: keyword_fields_absent_def keyword_field_def empty_scene_insight_def
      rank_insights_console keywords_missing_def member_def)

text \<open>
  A \<^verbatim>\<open>null\<close> among the insights ends the validation: the record after it is not
  checked and gets no warning (the operation then fails, as the check throws inside the
  \<^verbatim>\<open>try\<close>).
\<close>

lemma keyword_warning_after_null:
  "rank_insights (sample_env JNull) [schema_insight, JNull, schema_insight] =
     ([WarnInsightKeywords 1], Inl TypeError)"
  by (simp add: rank_insights_def cap_insights_def schema_insight_def keywords_missing_def
      member_def)

section \<open>Responses without the expected key\<close>

lemma deepAnalyze_response_no_key:
  assumes "JSON_parse env (clean_response text) = Some parsed" and "parsed \<noteq> JNull"
    and "own_prop parsed ''summaries'' = None"
  shows "deepAnalyze_response env (JStr text) = ([], Inr [])"
  using assms
  by (simp add: deepAnalyze_response_def deepAnalyze_try_def member_def validate_summaries_def)

lemma generateInsights_response_no_key:
  assumes "JSON_parse env (clean_response text) = Some parsed" and "parsed \<noteq> JNull"
    and "own_prop parsed ''insights'' = None"
  shows "generateInsights_response env (JStr text) = ([WarnNoInsights], Inr [])"
  using assms
  by (simp add: generateInsights_response_def generateInsights_try_def member_def
      rank_insights_def cap_insights_def sort_insights_def)

text \<open>
  C10, as the code has it. When the cleaned text parses to a JSON value other than
  \<^verbatim>\<open>null\<close> that has no \<^verbatim>\<open>summaries\<close> key (phase 1) or no \<^verbatim>\<open>insights\<close> key
  (phase 2), the operation returns the empty array and raises no error: the caller gets
  the result of the empty-input short-circuit.
\<close>

theorem schemaless_response_returns_empty:
  "(articles \<noteq> []
      \<and> callOpenAI env (deepAnalyze_messages articles) (3 / 10) = (sent, Inr (JStr text))
      \<and> JSON_parse env (clean_response text) = Some parsed \<and> parsed \<noteq> JNull
      \<and> own_prop parsed ''summaries'' = None
    \<longrightarrow> result (deepAnalyzeArticles env articles) = Inr []
        \<and> result (deepAnalyzeArticles env articles) = result (deepAnalyzeArticles env []))
   \<and> (summaries \<noteq> []
      \<and> callOpenAI env (insight_messages summaries st) (4 / 10) = (sent, Inr (JStr text))
      \<and> JSON_parse env (clean_response text) = Some parsed \<and> parsed \<noteq> JNull
      \<and> own_prop parsed ''insights'' = None
    \<longrightarrow> result (generateSmartTopicInsights env summaries st) = Inr []
        \<and> result (generateSmartTopicInsights env summaries st)
            = result (generateSmartTopicInsights env [] st))"
proof -
  have e1: "result (deepAnalyzeArticles env []) = Inr []"
    by (simp add: deepAnalyzeArticles_def)
  have e2: "result (generateSmartTopicInsights env [] st) = Inr []"
    by (simp add: generateSmartTopicInsights_def)
  have p1: "result (deepAnalyzeArticles env articles) = Inr []"
    if "articles \<noteq> []"
      and "callOpenAI env (deepAnalyze_messages articles) (3 / 10) = (sent, Inr (JStr text))"
      and "JSON_parse env (clean_response text) = Some parsed" and "parsed \<noteq> JNull"
      and "own_prop parsed ''summaries'' = None"
    using that by (simp add: deepAnalyzeArticles_response deepAnalyze_response_no_key)
  have p2: "result (generateSmartTopicInsights env summaries st) = Inr []"
    if "summaries \<noteq> []"
      and "callOpenAI env (insight_messages summaries st) (4 / 10) = (sent, Inr (JStr text))"
      and "JSON_parse env (clean_response text) = Some parsed" and "parsed \<noteq> JNull"
      and "own_prop parsed ''insights'' = None"
    using that
    by (simp add: generateSmartTopicInsights_response generateInsights_response_no_key)
  from e1 e2 p1 p2 show ?thesis by simp
qed

lemma clean_braces: "clean_response ''{}'' = ''{}''"
  by (simp add: clean_response_def trim_def startsWith_def fence_def is_white_space_def)

lemma clean_null: "clean_response ''null'' = ''null''"
  by (simp add: clean_response_def trim_def startsWith_def fence_def is_white_space_def)

lemma clean_not_json: "clean_response ''not json'' = ''not json''"
  by (simp add: clean_response_def trim_def startsWith_def fence_def is_white_space_def)

theorem schemaless_response_returns_empty_witness:
  "[sample_article] \<noteq> []
   \<and> JSON_parse (sample_env (completion ''{}'')) (clean_response ''{}'') = Some (JObj [])
   \<and> JObj [] \<noteq> JNull
   \<and> own_prop (JObj []) ''summaries'' = None
   \<and> result (deepAnalyzeArticles (sample_env (completion ''{}'')) [sample_article]) = Inr []
   \<and> [sample_summary []] \<noteq> []
   \<and> own_prop (JObj []) ''insights'' = None
   \<and> result (generateSmartTopicInsights (sample_env (completion ''{}'')) [sample_summary []]
        sample_stats) = Inr []"
proof -
  let ?env = "sample_env (completion ''{}'')"
  have c1: "callOpenAI ?env (deepAnalyze_messages [sample_article]) (3 / 10) =
      ([request_of ?env (deepAnalyze_messages [sample_article]) (3 / 10)], Inr (JStr ''{}''))"
    by (simp add: sample_call)
  have c2: "callOpenAI ?env (insight_messages [sample_summary []] sample_stats) (4 / 10) =
      ([request_of ?env (insight_messages [sample_summary []] sample_stats) (4 / 10)],
       Inr (JStr ''{}''))"
    by (simp add: sample_call)
  have p: "JSON_parse ?env (clean_response ''{}'') = Some (JObj [])"
    by (simp add: clean_braces) (simp add: sample_env_def sample_parse_def)
  show ?thesis
    using c1 c2 p
      schemaless_response_returns_empty [of "[sample_article]" ?env
        "[request_of ?env (deepAnalyze_messages [sample_article]) (3 / 10)]" "''{}''"
        "JObj []" "[sample_summary []]" sample_stats]
      schemaless_response_returns_empty [of "[sample_article]" ?env
        "[request_of ?env (insight_messages [sample_summary []] sample_stats) (4 / 10)]" "''{}''"
        "JObj []" "[sample_summary []]" sample_stats]
    by simp
qed

text \<open>
  C10, as the spec states it, fails for the JSON value \<^verbatim>\<open>null\<close>: it has no
  \<^verbatim>\<open>summaries\<close> key, the read \<^verbatim>\<open>parsed.summaries\<close> throws inside the \<^verbatim>\<open>try\<close>,
  and the operation fails with the error of line 137.
\<close>

theorem schemaless_null_counterexample:
  "JSON_parse (sample_env (completion ''null'')) (clean_response ''null'') = Some JNull
   \<and> own_prop JNull ''summaries'' = None
   \<and> deepAnalyzeArticles (sample_env (completion ''null'')) [sample_article] =
       \<lparr>calls = [request_of (sample_env (completion ''null''))
                   (deepAnalyze_messages [sample_article])
                   (3 / 10)],
        console = [ErrorRawResponse (JStr ''null'')],
        result = Inl DeepAnalysisFailed\<rparr>"
proof -
  let ?env = "sample_env (completion ''null'')"
  have p: "JSON_parse ?env (clean_response ''null'') = Some JNull"
    by (simp add: clean_null) (simp add: sample_env_def sample_parse_def)
  have c: "callOpenAI ?env (deepAnalyze_messages [sample_article]) (3 / 10) =
      ([request_of ?env (deepAnalyze_messages [sample_article]) (3 / 10)], Inr (JStr ''null''))"
    by (simp add: sample_call)
  have "deepAnalyze_response ?env (JStr ''null'') =
      ([ErrorRawResponse (JStr ''null'')], Inl DeepAnalysisFailed)"
    using p by (simp add: deepAnalyze_response_def deepAnalyze_try_def member_def)
  with p c show ?thesis
    by (simp add: deepAnalyzeArticles_response)
qed

section \<open>Responses that make the operation fail\<close>

lemma deepAnalyze_response_failure:
  "snd (deepAnalyze_try env response) = Inl e \<Longrightarrow>
   deepAnalyze_response env response =
     (fst (deepAnalyze_try env response) @ [ErrorRawResponse response], Inl DeepAnalysisFailed)"
  by (cases "deepAnalyze_try env response") (simp add: deepAnalyze_response_def)

lemma deepAnalyze_response_success:
  "snd (deepAnalyze_try env response) = Inr xs \<Longrightarrow>
   deepAnalyze_response env response = (fst (deepAnalyze_try env response), Inr xs)"
  by (cases "deepAnalyze_try env response") (simp add: deepAnalyze_response_def)

lemma generateInsights_response_failure:
  "snd (generateInsights_try env response) = Inl e \<Longrightarrow>
   generateInsights_response env response =
     (fst (generateInsights_try env response) @ [ErrorRawResponse response],
      Inl InsightGenerationFailed)"
  by (cases "generateInsights_try env response") (simp add: generateInsights_response_def)

lemma generateInsights_response_success:
  "snd (generateInsights_try env response) = Inr xs \<Longrightarrow>
   generateInsights_response env response = (fst (generateInsights_try env response), Inr xs)"
  by (cases "generateInsights_try env response") (simp add: generateInsights_response_def)

lemma deepAnalyze_try_unparsed:
  "JSON_parse env (clean_response text) = None \<Longrightarrow>
   deepAnalyze_try env (JStr text) = ([], Inl SyntaxError)"
  by (simp add: deepAnalyze_try_def)

lemma generateInsights_try_unparsed:
  "JSON_parse env (clean_response text) = None \<Longrightarrow>
   generateInsights_try env (JStr text) = ([], Inl SyntaxError)"
  by (simp add: generateInsights_try_def)

lemma deepAnalyze_try_usable:
  assumes "JSON_parse env (clean_response text) = Some parsed" and "usable_summaries parsed"
  shows "\<exists>xs. snd (deepAnalyze_try env (JStr text)) = Inr xs"
proof -
  from assms(2) obtain xs where n: "parsed \<noteq> JNull"
    and a: "or_else (own_prop parsed ''summaries'') (JArr []) = JArr xs"
    and x: "JNull \<notin> set xs"
    by (auto simp: usable_summaries_def split: json.splits)
  have "snd (validate_summaries xs) = Inr xs"
    using x by (simp add: validate_summaries_records)
  with assms(1) n a show ?thesis
    by (simp add: deepAnalyze_try_def member_def)
qed

lemma deepAnalyze_try_unusable:
  assumes "JSON_parse env (clean_response text) = Some parsed" and "\<not> usable_summaries parsed"
  shows "snd (deepAnalyze_try env (JStr text)) = Inl TypeError"
proof (cases "parsed = JNull")
  case True
  with assms(1) show ?thesis by (simp add: deepAnalyze_try_def member_def)
next
  case False
  show ?thesis
  proof (cases "or_else (own_prop parsed ''summaries'') (JArr [])")
    case (JArr xs)
    with assms(2) False have "JNull \<in> set xs"
      by (simp add: usable_summaries_def)
    then have "snd (validate_summaries xs) = Inl TypeError"
      by (rule validate_summaries_null)
    with assms(1) False JArr show ?thesis
      by (simp add: deepAnalyze_try_def member_def)
  qed (use assms(1) False in \<open>simp_all add: deepAnalyze_try_def member_def\<close>)
qed

lemma confidence_number_isl:
  "isl (confidence_number env x) = (\<not> confidence_converts x)"
proof (cases "own_prop x ''confidence''")
  case None
  then show ?thesis by (simp add: confidence_number_def confidence_converts_def)
next
  case (Some v)
  then show ?thesis
    by (cases v) (simp_all add: confidence_number_def confidence_converts_def)
qed

lemma sort_insights_sortable:
  "sortable xs \<Longrightarrow> \<exists>rs. sort_insights env xs = Inr rs"
  by (auto simp: sortable_def sort_insights_def list_ex_iff list_all_iff confidence_number_isl)

lemma sort_insights_unsortable:
  "\<not> sortable xs \<Longrightarrow> sort_insights env xs = Inl TypeError"
  by (auto simp: sortable_def sort_insights_def list_ex_iff list_all_iff confidence_number_isl)

lemma generateInsights_try_usable:
  assumes "JSON_parse env (clean_response text) = Some parsed" and "usable_insights parsed"
  shows "\<exists>xs. snd (generateInsights_try env (JStr text)) = Inr xs"
proof -
  from assms(2) obtain xs where n: "parsed \<noteq> JNull"
    and a: "or_else (own_prop parsed ''insights'') (JArr []) = JArr xs"
    and x: "JNull \<notin> set (take 10 xs)"
    and s: "sortable (take 10 xs)"
    by (auto simp: usable_insights_def split: json.splits)
  have "snd (rank_insights env xs) = sort_insights env (take 10 xs)"
    using x by (simp add: rank_insights_records)
  then have "\<exists>rs. snd (rank_insights env xs) = Inr rs"
    using sort_insights_sortable [OF s, of env] by simp
  with assms(1) n a show ?thesis
    by (simp add: generateInsights_try_def member_def)
qed

lemma generateInsights_try_unusable:
  assumes "JSON_parse env (clean_response text) = Some parsed" and "\<not> usable_insights parsed"
  shows "snd (generateInsights_try env (JStr text)) = Inl TypeError"
proof (cases "parsed = JNull")
  case True
  with assms(1) show ?thesis by (simp add: generateInsights_try_def member_def)
next
  case False
  show ?thesis
  proof (cases "or_else (own_prop parsed ''insights'') (JArr [])")
    case (JArr xs)
    have "snd (rank_insights env xs) = Inl TypeError"
    proof (cases "JNull \<in> set (take 10 xs)")
      case True
      then show ?thesis by (rule rank_insights_null)
    next
      case no_null: False
      with assms(2) \<open>parsed \<noteq> JNull\<close> JArr have "\<not> sortable (take 10 xs)"
        by (simp add: usable_insights_def)
      then have "sort_insights env (take 10 xs) = Inl TypeError"
        by (rule sort_insights_unsortable)
      with no_null show ?thesis by (simp add: rank_insights_records)
    qed
    with assms(1) False JArr show ?thesis
      by (simp add: generateInsights_try_def member_def)
  qed (use assms(1) False in \<open>simp_all add: generateInsights_try_def member_def\<close>)
qed

lemma deepAnalyze_response_cases:
  "(JSON_parse env (clean_response text) = None \<longrightarrow>
      deepAnalyze_response env (JStr text) =
        ([ErrorRawResponse (JStr text)], Inl DeepAnalysisFailed))
   \<and> (\<forall>parsed. JSON_parse env (clean_response text) = Some parsed \<longrightarrow>
        (usable_summaries parsed \<longrightarrow>
           (\<exists>xs. snd (deepAnalyze_response env (JStr text)) = Inr xs))
      \<and> (\<not> usable_summaries parsed \<longrightarrow>
           snd (deepAnalyze_response env (JStr text)) = Inl DeepAnalysisFailed
         \<and> fst (deepAnalyze_response env (JStr text)) \<noteq> []
         \<and> last (fst (deepAnalyze_response env (JStr text))) = ErrorRawResponse (JStr text)))"
proof (intro conjI impI allI)
  assume "JSON_parse env (clean_response text) = None"
  then show "deepAnalyze_response env (JStr text) =
      ([ErrorRawResponse (JStr text)], Inl DeepAnalysisFailed)"
    by (simp add: deepAnalyze_response_def deepAnalyze_try_unparsed)
next
  fix parsed
  assume "JSON_parse env (clean_response text) = Some parsed" and "usable_summaries parsed"
  then obtain xs where "snd (deepAnalyze_try env (JStr text)) = Inr xs"
    using deepAnalyze_try_usable by blast
  then show "\<exists>xs. snd (deepAnalyze_response env (JStr text)) = Inr xs"
    by (simp add: deepAnalyze_response_success)
next
  fix parsed
  assume "JSON_parse env (clean_response text) = Some parsed" and "\<not> usable_summaries parsed"
  then have f: "snd (deepAnalyze_try env (JStr text)) = Inl TypeError"
    by (rule deepAnalyze_try_unusable)
  show "snd (deepAnalyze_response env (JStr text)) = Inl DeepAnalysisFailed"
    by (simp add: deepAnalyze_response_failure [OF f])
  show "fst (deepAnalyze_response env (JStr text)) \<noteq> []"
    by (simp add: deepAnalyze_response_failure [OF f])
  show "last (fst (deepAnalyze_response env (JStr text))) = ErrorRawResponse (JStr text)"
    by (simp add: deepAnalyze_response_failure [OF f])
qed

lemma generateInsights_response_cases:
  "(JSON_parse env (clean_response text) = None \<longrightarrow>
      generateInsights_response env (JStr text) =
        ([ErrorRawResponse (JStr text)], Inl InsightGenerationFailed))
   \<and> (\<forall>parsed. JSON_parse env (clean_response text) = Some parsed \<longrightarrow>
        (usable_insights parsed \<longrightarrow>
           (\<exists>xs. snd (generateInsights_response env (JStr text)) = Inr xs))
      \<and> (\<not> usable_insights parsed \<longrightarrow>
           snd (generateInsights_response env (JStr text)) = Inl InsightGenerationFailed
         \<and> fst (generateInsights_response env (JStr text)) \<noteq> []
         \<and> last (fst (generateInsights_response env (JStr text)))
             = ErrorRawResponse (JStr text)))"
proof (intro conjI impI allI)
  assume "JSON_parse env (clean_response text) = None"
  then show "generateInsights_response env (JStr text) =
      ([ErrorRawResponse (JStr text)], Inl InsightGenerationFailed)"
    by (simp add: generateInsights_response_def generateInsights_try_unparsed)
next
  fix parsed
  assume "JSON_parse env (clean_response text) = Some parsed" and "usable_insights parsed"
  then obtain xs where "snd (generateInsights_try env (JStr text)) = Inr xs"
    using generateInsights_try_usable by blast
  then show "\<exists>xs. snd (generateInsights_response env (JStr text)) = Inr xs"
    by (simp add: generateInsights_response_success)
next
  fix parsed
  assume "JSON_parse env (clean_response text) = Some parsed" and "\<not> usable_insights parsed"
  then have f: "snd (generateInsights_try env (JStr text)) = Inl TypeError"
    by (rule generateInsights_try_unusable)
  show "snd (generateInsights_response env (JStr text)) = Inl InsightGenerationFailed"
    by (simp add: generateInsights_response_failure [OF f])
  show "fst (generateInsights_response env (JStr text)) \<noteq> []"
    by (simp add: generateInsights_response_failure [OF f])
  show "last (fst (generateInsights_response env (JStr text))) = ErrorRawResponse (JStr text)"
    by (simp add: generateInsights_response_failure [OF f])
qed

text \<open>
  C3, as the code has it, for a response that is a text, in either phase. If the cleaned
  text does not parse, the operation writes the raw response to \<^verbatim>\<open>console.error\<close> and
  fails with the fixed error of its phase; the error itself carries no text. If the
  cleaned text parses, the outcome depends on the parsed value: the same error, after the
  same entry, when the value is \<^verbatim>\<open>null\<close>, when its \<^verbatim>\<open>summaries\<close>
  (\<^verbatim>\<open>insights\<close>) is a truthy value that is not an array, when that array holds
  \<^verbatim>\<open>null\<close> (among its first ten elements), or, in the second phase, when two or more
  insights are kept and the \<^verbatim>\<open>confidence\<close> of one of them cannot be converted to a
  number, so that the subtraction of line 278 throws; no error otherwise.
\<close>

theorem malformed_response_error:
  "(articles \<noteq> []
      \<and> callOpenAI env (deepAnalyze_messages articles) (3 / 10) = (sent, Inr (JStr text))
    \<longrightarrow>
      (JSON_parse env (clean_response text) = None \<longrightarrow>
         deepAnalyzeArticles env articles =
           \<lparr>calls = sent, console = [ErrorRawResponse (JStr text)],
            result = Inl DeepAnalysisFailed\<rparr>)
    \<and> (\<forall>parsed. JSON_parse env (clean_response text) = Some parsed \<longrightarrow>
          (usable_summaries parsed \<longrightarrow>
             (\<exists>xs. result (deepAnalyzeArticles env articles) = Inr xs))
        \<and> (\<not> usable_summaries parsed \<longrightarrow>
             result (deepAnalyzeArticles env articles) = Inl DeepAnalysisFailed
           \<and> console (deepAnalyzeArticles env articles) \<noteq> []
           \<and> last (console (deepAnalyzeArticles env articles)) = ErrorRawResponse (JStr text))))
   \<and> (summaries \<noteq> []
      \<and> callOpenAI env (insight_messages summaries st) (4 / 10) = (sent, Inr (JStr text))
    \<longrightarrow>
      (JSON_parse env (clean_response text) = None \<longrightarrow>
         generateSmartTopicInsights env summaries st =
           \<lparr>calls = sent, console = [ErrorRawResponse (JStr text)],
            result = Inl InsightGenerationFailed\<rparr>)
    \<and> (\<forall>parsed. JSON_parse env (clean_response text) = Some parsed \<longrightarrow>
          (usable_insights parsed \<longrightarrow>
             (\<exists>xs. result (generateSmartTopicInsights env summaries st) = Inr xs))
        \<and> (\<not> usable_insights parsed \<longrightarrow>
             result (generateSmartTopicInsights env summaries st) = Inl InsightGenerationFailed
           \<and> console (generateSmartTopicInsights env summaries st) \<noteq> []
           \<and> last (console (generateSmartTopicInsights env summaries st))
               = ErrorRawResponse (JStr text))))"
proof (intro conjI)
  show "articles \<noteq> []
      \<and> callOpenAI env (deepAnalyze_messages articles) (3 / 10) = (sent, Inr (JStr text))
    \<longrightarrow>
      (JSON_parse env (clean_response text) = None \<longrightarrow>
         deepAnalyzeArticles env articles =
           \<lparr>calls = sent, console = [ErrorRawResponse (JStr text)],
            result = Inl DeepAnalysisFailed\<rparr>)
    \<and> (\<forall>parsed. JSON_parse env (clean_response text) = Some parsed \<longrightarrow>
          (usable_summaries parsed \<longrightarrow>
             (\<exists>xs. result (deepAnalyzeArticles env articles) = Inr xs))
        \<and> (\<not> usable_summaries parsed \<longrightarrow>
             result (deepAnalyzeArticles env articles) = Inl DeepAnalysisFailed
           \<and> console (deepAnalyzeArticles env articles) \<noteq> []
           \<and> last (console (deepAnalyzeArticles env articles)) = ErrorRawResponse (JStr text)))"
  proof
    assume "articles \<noteq> []
      \<and> callOpenAI env (deepAnalyze_messages articles) (3 / 10) = (sent, Inr (JStr text))"
    then have "deepAnalyzeArticles env articles =
        \<lparr>calls = sent, console = fst (deepAnalyze_response env (JStr text)),
         result = snd (deepAnalyze_response env (JStr text))\<rparr>"
      by (simp add: deepAnalyzeArticles_response)
    with deepAnalyze_response_cases [of env "text"] show
      "(JSON_parse env (clean_response text) = None \<longrightarrow>
         deepAnalyzeArticles env articles =
           \<lparr>calls = sent, console = [ErrorRawResponse (JStr text)],
            result = Inl DeepAnalysisFailed\<rparr>)
    \<and> (\<forall>parsed. JSON_parse env (clean_response text) = Some parsed \<longrightarrow>
          (usable_summaries parsed \<longrightarrow>
             (\<exists>xs. result (deepAnalyzeArticles env articles) = Inr xs))
        \<and> (\<not> usable_summaries parsed \<longrightarrow>
             result (deepAnalyzeArticles env articles) = Inl DeepAnalysisFailed
           \<and> console (deepAnalyzeArticles env articles) \<noteq> []
           \<and> last (console (deepAnalyzeArticles env articles)) = ErrorRawResponse (JStr text)))"
      by simp
  qed
  show "summaries \<noteq> []
      \<and> callOpenAI env (insight_messages summaries st) (4 / 10) = (sent, Inr (JStr text))
    \<longrightarrow>
      (JSON_parse env (clean_response text) = None \<longrightarrow>
         generateSmartTopicInsights env summaries st =
           \<lparr>calls = sent, console = [ErrorRawResponse (JStr text)],
            result = Inl InsightGenerationFailed\<rparr>)
    \<and> (\<forall>parsed. JSON_parse env (clean_response text) = Some parsed \<longrightarrow>
          (usable_insights parsed \<longrightarrow>
             (\<exists>xs. result (generateSmartTopicInsights env summaries st) = Inr xs))
        \<and> (\<not> usable_insights parsed \<longrightarrow>
             result (generateSmartTopicInsights env summaries st) = Inl InsightGenerationFailed
           \<and> console (generateSmartTopicInsights env summaries st) \<noteq> []
           \<and> last (console (generateSmartTopicInsights env summaries st))
               = ErrorRawResponse (JStr text)))"
  proof
    assume "summaries \<noteq> []
      \<and> callOpenAI env (insight_messages summaries st) (4 / 10) = (sent, Inr (JStr text))"
    then have "generateSmartTopicInsights env summaries st =
        \<lparr>calls = sent, console = fst (generateInsights_response env (JStr text)),
         result = snd (generateInsights_response env (JStr text))\<rparr>"
      by (simp add: generateSmartTopicInsights_response)
    with generateInsights_response_cases [of env "text"] show
      "(JSON_parse env (clean_response text) = None \<longrightarrow>
         generateSmartTopicInsights env summaries st =
           \<lparr>calls = sent, console = [ErrorRawResponse (JStr text)],
            result = Inl InsightGenerationFailed\<rparr>)
    \<and> (\<forall>parsed. JSON_parse env (clean_response text) = Some parsed \<longrightarrow>
          (usable_insights parsed \<longrightarrow>
             (\<exists>xs. result (generateSmartTopicInsights env summaries st) = Inr xs))
        \<and> (\<not> usable_insights parsed \<longrightarrow>
             result (generateSmartTopicInsights env summaries st) = Inl InsightGenerationFailed
           \<and> console (generateSmartTopicInsights env summaries st) \<noteq> []
           \<and> last (console (generateSmartTopicInsights env summaries st))
               = ErrorRawResponse (JStr text)))"
      by simp
  qed
qed

lemma clean_unsortable_text: "clean_response unsortable_text = unsortable_text"
  by (simp add: clean_response_def unsortable_text_def trim_def startsWith_def fence_def
       is_white_space_def)

theorem malformed_response_error_witness:
  "[sample_article] \<noteq> []
   \<and> JSON_parse (sample_env (completion ''not json'')) (clean_response ''not json'') = None
   \<and> deepAnalyzeArticles (sample_env (completion ''not json'')) [sample_article] =
       \<lparr>calls = [request_of (sample_env (completion ''not json''))
                   (deepAnalyze_messages [sample_article]) (3 / 10)],
        console = [ErrorRawResponse (JStr ''not json'')],
        result = Inl DeepAnalysisFailed\<rparr>
   \<and> [sample_summary []] \<noteq> []
   \<and> generateSmartTopicInsights (sample_env (completion ''not json'')) [sample_summary []]
        sample_stats =
       \<lparr>calls = [request_of (sample_env (completion ''not json''))
                   (insight_messages [sample_summary []] sample_stats) (4 / 10)],
        console = [ErrorRawResponse (JStr ''not json'')],
        result = Inl InsightGenerationFailed\<rparr>
   \<and> JSON_parse (sample_env (completion unsortable_text)) (clean_response unsortable_text) =
       Some unsortable_value
   \<and> \<not> usable_insights unsortable_value
   \<and> result (generateSmartTopicInsights (sample_env (completion unsortable_text))
        [sample_summary []] sample_stats) = Inl InsightGenerationFailed
   \<and> last (console (generateSmartTopicInsights (sample_env (completion unsortable_text))
        [sample_summary []] sample_stats)) = ErrorRawResponse (JStr unsortable_text)"
proof -
  let ?env = "sample_env (completion ''not json'')"
  let ?envu = "sample_env (completion unsortable_text)"
  have c1: "callOpenAI ?env (deepAnalyze_messages [sample_article]) (3 / 10) =
      ([request_of ?env (deepAnalyze_messages [sample_article]) (3 / 10)],
       Inr (JStr ''not json''))"
    by (simp add: sample_call)
  have c2: "callOpenAI ?env (insight_messages [sample_summary []] sample_stats) (4 / 10) =
      ([request_of ?env (insight_messages [sample_summary []] sample_stats) (4 / 10)],
       Inr (JStr ''not json''))"
    by (simp add: sample_call)
  have c3: "callOpenAI ?envu (insight_messages [sample_summary []] sample_stats) (4 / 10) =
      ([request_of ?envu (insight_messages [sample_summary []] sample_stats) (4 / 10)],
       Inr (JStr unsortable_text))"
    by (simp add: sample_call unsortable_text_def)
  have p: "JSON_parse ?env (clean_response ''not json'') = None"
    by (simp add: clean_not_json)
      (simp add: sample_env_def sample_parse_def summaries_text_def summaries_null_text_def
        unsortable_text_def)
  have pu: "JSON_parse ?envu (clean_response unsortable_text) = Some unsortable_value"
    by (simp add: clean_unsortable_text)
      (simp add: sample_env_def sample_parse_def summaries_text_def summaries_null_text_def
        unsortable_text_def)
  have u: "\<not> usable_insights unsortable_value"
    by (simp add: usable_insights_def unsortable_value_def sortable_def confidence_converts_def)
  have n1: "[sample_article] \<noteq> []" and n2: "[sample_summary []] \<noteq> []"
    by simp_all
  have first: "deepAnalyzeArticles ?env [sample_article] =
       \<lparr>calls = [request_of ?env (deepAnalyze_messages [sample_article]) (3 / 10)],
        console = [ErrorRawResponse (JStr ''not json'')],
        result = Inl DeepAnalysisFailed\<rparr>"
    using n1 c1 p
      malformed_response_error [of "[sample_article]" ?env
        "[request_of ?env (deepAnalyze_messages [sample_article]) (3 / 10)]" "''not json''"
        "[sample_summary []]" sample_stats]
    by blast
  have second: "generateSmartTopicInsights ?env [sample_summary []] sample_stats =
       \<lparr>calls = [request_of ?env (insight_messages [sample_summary []] sample_stats) (4 / 10)],
        console = [ErrorRawResponse (JStr ''not json'')],
        result = Inl InsightGenerationFailed\<rparr>"
    using n2 c2 p
      malformed_response_error [of "[sample_article]" ?env
        "[request_of ?env (insight_messages [sample_summary []] sample_stats) (4 / 10)]"
        "''not json''" "[sample_summary []]" sample_stats]
    by blast
  have third: "result (generateSmartTopicInsights ?envu [sample_summary []] sample_stats)
        = Inl InsightGenerationFailed
      \<and> last (console (generateSmartTopicInsights ?envu [sample_summary []] sample_stats))
        = ErrorRawResponse (JStr unsortable_text)"
    using n2 c3 pu u
      malformed_response_error [of "[sample_article]" ?envu
        "[request_of ?envu (insight_messages [sample_summary []] sample_stats) (4 / 10)]"
        unsortable_text "[sample_summary []]" sample_stats]
    by blast
  show ?thesis
    using n1 n2 p pu u first second third by blast
qed

text \<open>
  C3, as the spec states it, fails in its second half: the text \<^verbatim>\<open>null\<close> parses, and
  the operation fails exactly as it does on a text that does not parse.
\<close>

theorem parsed_null_still_fails_counterexample:
  "JSON_parse (sample_env (completion ''null'')) (clean_response ''null'') = Some JNull
   \<and> generateSmartTopicInsights (sample_env (completion ''null'')) [sample_summary []]
        sample_stats =
       \<lparr>calls = [request_of (sample_env (completion ''null''))
                   (insight_messages [sample_summary []] sample_stats) (4 / 10)],
        console = [ErrorRawResponse (JStr ''null'')],
        result = Inl InsightGenerationFailed\<rparr>"
proof -
  let ?env = "sample_env (completion ''null'')"
  have p: "JSON_parse ?env (clean_response ''null'') = Some JNull"
    by (simp add: clean_null) (simp add: sample_env_def sample_parse_def)
  have c: "callOpenAI ?env (insight_messages [sample_summary []] sample_stats) (4 / 10) =
      ([request_of ?env (insight_messages [sample_summary []] sample_stats) (4 / 10)],
       Inr (JStr ''null''))"
    by (simp add: sample_call)
  have "generateInsights_response ?env (JStr ''null'') =
      ([ErrorRawResponse (JStr ''null'')], Inl InsightGenerationFailed)"
    using p by (simp add: generateInsights_response_def generateInsights_try_def member_def)
  with p c show ?thesis
    by (simp add: generateSmartTopicInsights_response)
qed

section \<open>The word cloud\<close>

lemma first_seen_snoc:
  "first_seen (ws @ [x]) = (if x \<in> set ws then first_seen ws else first_seen ws @ [x])"
  by (simp add: first_seen_def)

lemma distinct_first_seen: "distinct (first_seen ws)"
  by (simp add: first_seen_def)

lemma set_first_seen: "set (first_seen ws) = set ws"
  by (simp add: first_seen_def)

lemma length_first_seen: "length (first_seen ws) = card (set ws)"
  by (simp add: first_seen_def length_remdups_card_conv)

lemma set_prop_absent:
  "k \<notin> fst ` set ps \<Longrightarrow> set_prop k v ps = ps @ [(k, v)]"
  by (induction ps) auto

lemma set_prop_present:
  "distinct ks \<Longrightarrow> k \<in> set ks \<Longrightarrow>
   set_prop k v (map (\<lambda>w. (w, f w)) ks) = map (\<lambda>w. (w, if w = k then v else f w)) ks"
  by (induction ks) auto

lemma map_of_counts:
  "map_of (map (\<lambda>w. (w, f w)) ks) k = (if k \<in> set ks then Some (f k) else None)"
  by (induction ks) auto

lemma occurrences_snoc:
  "occurrences (ws @ [x]) w = (if w = x then occurrences ws w + 1 else occurrences ws w)"
  by (simp add: occurrences_def)

lemma occurrences_positive: "w \<in> set ws \<Longrightarrow> occurrences ws w \<noteq> 0"
  by (simp add: occurrences_def count_list_0_iff)

lemma occurrences_absent: "w \<notin> set ws \<Longrightarrow> occurrences ws w = 0"
  by (simp add: occurrences_def)

lemma wordCount_loop:
  "foldl count_word [] ws = map (\<lambda>w. (w, occurrences ws w)) (first_seen ws)"
proof (induction ws rule: rev_induct)
  case Nil
  show ?case by (simp add: first_seen_def)
next
  case (snoc x ws)
  let ?wc = "map (\<lambda>w. (w, occurrences ws w)) (first_seen ws)"
  have step: "foldl count_word [] (ws @ [x]) = count_word ?wc x"
    using snoc by simp
  show ?case
  proof (cases "x \<in> set ws")
    case True
    then have m: "map_of ?wc x = Some (occurrences ws x)"
      by (simp add: map_of_counts set_first_seen)
    have "count_word ?wc x = set_prop x (occurrences ws x + 1) ?wc"
      using m True by (simp add: count_word_def occurrences_positive)
    also have "\<dots> = map (\<lambda>w. (w, if w = x then occurrences ws x + 1 else occurrences ws w))
        (first_seen ws)"
      using True by (simp add: set_prop_present distinct_first_seen set_first_seen)
    also have "\<dots> = map (\<lambda>w. (w, occurrences (ws @ [x]) w)) (first_seen (ws @ [x]))"
      using True by (simp add: first_seen_snoc occurrences_snoc)
    finally show ?thesis using step by simp
  next
    case False
    then have m: "map_of ?wc x = None"
      by (simp add: map_of_counts set_first_seen)
    have "x \<notin> fst ` set ?wc"
      using False by (auto simp: set_first_seen)
    then have "count_word ?wc x = ?wc @ [(x, 1)]"
      using m by (simp add: count_word_def set_prop_absent)
    also have "\<dots> = map (\<lambda>w. (w, occurrences (ws @ [x]) w)) (first_seen (ws @ [x]))"
      using False by (auto simp: first_seen_snoc occurrences_snoc set_first_seen occurrences_absent)
    finally show ?thesis using step by simp
  qed
qed

lemma insort_key_map:
  "insort_key f (g x) (map g xs) = map g (insort_key (\<lambda>y. f (g y)) x xs)"
  by (induction xs) auto

lemma sort_key_map:
  "sort_key f (map g xs) = map g (sort_key (\<lambda>y. f (g y)) xs)"
  by (induction xs) (auto simp: insort_key_map)

lemma Object_entries_counts:
  "Object_entries (map (\<lambda>w. (w, f w)) ks) = map (\<lambda>w. (w, f w)) (key_order ks)"
  by (simp add: Object_entries_def key_order_def filter_map comp_def sort_key_map)

lemma sorted_entries:
  "Array_sort snd (Object_entries (map (\<lambda>w. (w, f w)) ks)) =
     map (\<lambda>w. (w, f w)) (sort_key (\<lambda>w. - f w) (key_order ks))"
  by (simp add: Array_sort_sort_key Object_entries_counts sort_key_map)

lemma generateWordCloud_eq:
  assumes "\<forall>w\<in>set (allKeywords summaries). w \<notin> set Object_prototype_names"
  shows "generateWordCloud summaries =
     Some (map cloud_entry (enumerate 0
        (map (\<lambda>w. (w, occurrences (allKeywords summaries) w))
           (ranked_words (allKeywords summaries)))))"
proof -
  have "\<not> list_ex (\<lambda>w. w \<in> set Object_prototype_names) (allKeywords summaries)"
    using assms by (simp add: list_ex_iff)
  then show ?thesis
    by (simp add: generateWordCloud_def Let_def wordCount_loop sorted_entries take_map
        ranked_words_def)
qed

lemma cloud_nth:
  assumes "i < length ks"
  shows "map cloud_entry (enumerate 0 (map (\<lambda>w. (w, f w)) ks)) ! i =
     \<lparr>word = ks ! i, count' = f (ks ! i), size' = max 20 (48 - int i * 2)\<rparr>"
  using assms by (simp add: nth_enumerate_eq cloud_entry_def)

lemma cloud_words:
  "map word (map cloud_entry (enumerate 0 (map (\<lambda>w. (w, f w)) ks))) = ks"
  by (rule nth_equalityI) (simp_all add: nth_enumerate_eq cloud_entry_def)

lemma cloud_counts:
  "map count' (map cloud_entry (enumerate 0 (map (\<lambda>w. (w, f w)) ks))) = map f ks"
  by (rule nth_equalityI) (simp_all add: nth_enumerate_eq cloud_entry_def)

lemma key_order_props:
  "set (key_order ks) = set ks" "distinct ks \<Longrightarrow> distinct (key_order ks)"
  "length (key_order ks) = length ks"
    apply (auto simp: key_order_def)[2]
  using sum_length_filter_compl [of is_array_index ks] by (simp add: key_order_def)

lemma key_order_plain:
  "list_all (\<lambda>w. \<not> is_array_index w) ks \<Longrightarrow> key_order ks = ks"
proof -
  assume a: "list_all (\<lambda>w. \<not> is_array_index w) ks"
  then have "filter is_array_index ks = []"
    by (simp add: list_all_iff filter_empty_conv)
  moreover from a have "filter (\<lambda>k. \<not> is_array_index k) ks = ks"
    by (simp add: list_all_iff filter_id_conv)
  ultimately show ?thesis
    by (simp add: key_order_def)
qed

lemma ranked_words_props:
  "distinct (ranked_words ws)" "length (ranked_words ws) = min 20 (card (set ws))"
  "set (ranked_words ws) \<subseteq> set ws"
  "sorted_wrt (\<lambda>a b. occurrences ws b \<le> occurrences ws a) (ranked_words ws)"
proof -
  show "distinct (ranked_words ws)"
    by (simp add: ranked_words_def key_order_props distinct_first_seen)
  show "length (ranked_words ws) = min 20 (card (set ws))"
    by (simp add: ranked_words_def key_order_props length_first_seen min.commute)
  show "set (ranked_words ws) \<subseteq> set ws"
    by (auto simp: ranked_words_def key_order_props set_first_seen dest: in_set_takeD)
  have "sorted (map (\<lambda>w. - occurrences ws w) (ranked_words ws))"
    unfolding ranked_words_def take_map [symmetric] by (rule sorted_wrt_take) simp
  then show "sorted_wrt (\<lambda>a b. occurrences ws b \<le> occurrences ws a) (ranked_words ws)"
    by (simp add: sorted_wrt_descending)
qed


text \<open>
  C6, as the code has it. For every summary list none of whose keywords is the name of a
  property of \<^verbatim>\<open>Object.prototype\<close>, the aggregator returns one entry for each distinct
  keyword (compared as exact strings), at most twenty of them; the count of an entry is
  the number of occurrences of its keyword in all the \<^verbatim>\<open>keywords\<close> arrays, and its
  size is \<open>max 20 (48 - 2 * rank)\<close> for its 0-based position. The entries are sorted by
  descending count, and entries of equal count are in the order in which the counting
  object lists its keys: keywords that are array indices first, in ascending numeric
  order, then the other keywords in first-seen order. When no keyword is an array index
  this is the first-seen order.
\<close>

theorem word_cloud_entries:
  assumes "\<forall>w\<in>set (allKeywords summaries). w \<notin> set Object_prototype_names"
  shows "\<exists>cloud. generateWordCloud summaries = Some cloud
      \<and> map word cloud = ranked_words (allKeywords summaries)
      \<and> length cloud = min 20 (card (set (allKeywords summaries)))
      \<and> distinct (map word cloud)
      \<and> (\<forall>i<length cloud.
            count' (cloud ! i) = occurrences (allKeywords summaries) (word (cloud ! i))
          \<and> size' (cloud ! i) = max 20 (48 - 2 * int i))
      \<and> sorted_wrt (\<lambda>a b. count' b \<le> count' a) cloud
      \<and> (list_all (\<lambda>w. \<not> is_array_index w) (allKeywords summaries) \<longrightarrow>
            map word cloud =
              take 20 (sort_key (\<lambda>w. - occurrences (allKeywords summaries) w)
                         (first_seen (allKeywords summaries))))"
proof -
  let ?ws = "allKeywords summaries"
  let ?ks = "ranked_words ?ws"
  let ?cloud = "map cloud_entry (enumerate 0 (map (\<lambda>w. (w, occurrences ?ws w)) ?ks))"
  have res: "generateWordCloud summaries = Some ?cloud"
    using assms by (rule generateWordCloud_eq)
  have words: "map word ?cloud = ?ks"
    by (rule cloud_words)
  have len: "length ?cloud = min 20 (card (set ?ws))"
    by (simp add: ranked_words_props(2))
  have dist: "distinct (map word ?cloud)"
    by (simp only: words ranked_words_props(1))
  have entry: "count' (?cloud ! i) = occurrences ?ws (word (?cloud ! i))
      \<and> size' (?cloud ! i) = max 20 (48 - 2 * int i)" if "i < length ?cloud" for i
  proof -
    from that have "i < length ?ks" by simp
    then have "?cloud ! i =
        \<lparr>word = ?ks ! i, count' = occurrences ?ws (?ks ! i), size' = max 20 (48 - int i * 2)\<rparr>"
      by (rule cloud_nth)
    then show ?thesis by (simp add: mult.commute)
  qed
  have "sorted_wrt (\<lambda>a b. occurrences ?ws b \<le> occurrences ?ws a) ?ks"
    by (rule ranked_words_props(4))
  then have "sorted_wrt (\<lambda>a b. b \<le> a) (map (occurrences ?ws) ?ks)"
    by (simp add: sorted_wrt_map)
  then have "sorted_wrt (\<lambda>a b. b \<le> a) (map count' ?cloud)"
    by (simp only: cloud_counts)
  then have srt: "sorted_wrt (\<lambda>a b. count' b \<le> count' a) ?cloud"
    by (simp only: sorted_wrt_map)
  have plain: "map word ?cloud =
      take 20 (sort_key (\<lambda>w. - occurrences ?ws w) (first_seen ?ws))"
    if "list_all (\<lambda>w. \<not> is_array_index w) ?ws"
  proof -
    from that have "list_all (\<lambda>w. \<not> is_array_index w) (first_seen ?ws)"
      by (simp add: list_all_iff set_first_seen)
    then have "key_order (first_seen ?ws) = first_seen ?ws"
      by (rule key_order_plain)
    then have "?ks = take 20 (sort_key (\<lambda>w. - occurrences ?ws w) (first_seen ?ws))"
      by (simp add: ranked_words_def)
    with words show ?thesis
      by (rule trans)
  qed
  from res words len dist entry srt plain show ?thesis
    by blast
qed

theorem word_cloud_entries_witness:
  "list_all (\<lambda>w. w \<notin> set Object_prototype_names)
     (allKeywords [sample_summary [''a'', ''b''], sample_summary [''a'']])
   \<and> list_all (\<lambda>w. \<not> is_array_index w)
       (allKeywords [sample_summary [''a'', ''b''], sample_summary [''a'']])
   \<and> generateWordCloud [sample_summary [''a'', ''b''], sample_summary [''a'']] =
       Some [\<lparr>word = ''a'', count' = 2, size' = 48\<rparr>, \<lparr>word = ''b'', count' = 1, size' = 46\<rparr>]
   \<and> (\<exists>cloud. generateWordCloud [sample_summary [''a'', ''b''], sample_summary [''a'']] = Some cloud
        \<and> map word cloud =
            take 20 (sort_key
              (\<lambda>w. - occurrences (allKeywords [sample_summary [''a'', ''b''], sample_summary [''a'']]) w)
              (first_seen (allKeywords [sample_summary [''a'', ''b''], sample_summary [''a'']]))))"
proof -
  let ?ss = "[sample_summary [''a'', ''b''], sample_summary [''a'']]"
  have ws: "allKeywords ?ss = [''a'', ''b'', ''a'']"
    by (simp add: allKeywords_def sample_summary_def)
  have h: "\<forall>w\<in>set (allKeywords ?ss). w \<notin> set Object_prototype_names"
    by (simp add: ws Object_prototype_names_def)
  have p: "list_all (\<lambda>w. \<not> is_array_index w) (allKeywords ?ss)"
    by (simp add: ws is_array_index_def is_digit_def)
  have v: "generateWordCloud ?ss =
      Some [\<lparr>word = ''a'', count' = 2, size' = 48\<rparr>, \<lparr>word = ''b'', count' = 1, size' = 46\<rparr>]"
    by (simp add: generateWordCloud_def ws Object_prototype_names_def count_word_def
        Object_entries_def is_array_index_def is_digit_def cloud_entry_def)
  show ?thesis
    using h p v word_cloud_entries [OF h] unfolding list_all_iff by blast
qed

text \<open>
  C6, as the spec states it, fails on the tie order: of the keywords \<open>b\<close>, \<open>1\<close>, seen
  in this order once each, the entry of \<open>1\<close> comes first.
\<close>

theorem word_cloud_tie_order_counterexample:
  "allKeywords [sample_summary [''b'', ''1'']] = [''b'', ''1'']
   \<and> generateWordCloud [sample_summary [''b'', ''1'']] =
       Some [\<lparr>word = ''1'', count' = 1, size' = 48\<rparr>, \<lparr>word = ''b'', count' = 1, size' = 46\<rparr>]"
  by (simp add: generateWordCloud_def allKeywords_def sample_summary_def
      Object_prototype_names_def count_word_def Object_entries_def is_array_index_def
      is_digit_def decimal_def cloud_entry_def)

section \<open>The prompt data\<close>
















end
